theory Spec2Isabelle
  imports Main
begin

section \<open>Strings and paths\<close>

text \<open>
  The script is one coroutine, \<^verbatim>\<open>main(user_input, file_path)\<close> of \<^verbatim>\<open>agent.py\<close>.
  A Python string is modelled by the \<^typ>\<open>string\<close> of its UTF-8 bytes; the characters the
  script inspects (the path separator, the dot, the letters of \<^verbatim>\<open>junior\<close> and \<^verbatim>\<open>senior\<close>)
  are ASCII, one byte each.
  The path functions are those of a POSIX host: \<^verbatim>\<open>os.sep\<close> is the slash.
\<close>

definition os_sep :: char where
  "os_sep = CHR ''/''"

text \<open>\<^verbatim>\<open>s.split(sep)\<close> for a one-character separator: every occurrence cuts, empty pieces are kept.\<close>

fun split_on :: "char \<Rightarrow> string \<Rightarrow> string list" where
  "split_on c [] = [[]]"
| "split_on c (x # xs) =
     (if x = c then [] # split_on c xs
      else (case split_on c xs of
              [] \<Rightarrow> [[x]]
            | w # ws \<Rightarrow> (x # w) # ws))"

text \<open>\<^verbatim>\<open>xs[-3:]\<close>: the last three elements, or all of them when there are fewer.\<close>

definition last3 :: "'a list \<Rightarrow> 'a list" where
  "last3 xs = drop (length xs - 3) xs"

text \<open>\<^verbatim>\<open>sep.join(parts)\<close>.\<close>

fun join :: "string \<Rightarrow> string list \<Rightarrow> string" where
  "join sep [] = []"
| "join sep [p] = p"
| "join sep (p # q # ps) = p @ sep @ join sep (q # ps)"

text \<open>\<^verbatim>\<open>s.replace(".", "_")\<close>: every dot becomes an underscore.\<close>

definition replace_dots :: "string \<Rightarrow> string" where
  "replace_dots s = map (\<lambda>c. if c = CHR ''.'' then CHR ''_'' else c) s"

text \<open>\<^verbatim>\<open>s.rfind(c)\<close>: the index of the last occurrence of \<open>c\<close>, or \<open>-1\<close>.\<close>

definition rfind :: "char \<Rightarrow> string \<Rightarrow> int" where
  "rfind c s =
     (if c \<in> set s then int (length s) - 1 - int (length (takeWhile (\<lambda>x. x \<noteq> c) (rev s)))
      else - 1)"

text \<open>
  \<^verbatim>\<open>os.path.splitext(p)\<close> of \<^verbatim>\<open>posixpath\<close>: the extension starts at the last dot, when that
  dot lies after the last separator and some character between the separator and the dot
  is not itself a dot; otherwise the extension is empty.
\<close>

definition splitext :: "string \<Rightarrow> string \<times> string" where
  "splitext p =
     (let sepIndex = rfind os_sep p;
          dotIndex = rfind (CHR ''.'') p
      in if dotIndex > sepIndex \<and>
            list_ex (\<lambda>c. c \<noteq> CHR ''.'')
              (take (nat (dotIndex - (sepIndex + 1))) (drop (nat (sepIndex + 1)) p))
         then (take (nat dotIndex) p, drop (nat dotIndex) p)
         else (p, []))"

text \<open>\<^verbatim>\<open>os.path.join(a, b)\<close> of \<^verbatim>\<open>posixpath\<close>, for two arguments.\<close>

definition path_join :: "string \<Rightarrow> string \<Rightarrow> string" where
  "path_join a b =
     (if b \<noteq> [] \<and> hd b = os_sep then b
      else if a = [] \<or> last a = os_sep then a @ b
      else a @ [os_sep] @ b)"

text \<open>
  Lines 181 to 185 of \<^verbatim>\<open>agent.py\<close>:
  \<^verbatim>\<open>path_parts = file_path.split(os.sep)\<close>,
  \<^verbatim>\<open>base = "_".join(path_parts[-3:]).replace(".", "_")\<close>,
  \<^verbatim>\<open>base = os.path.splitext(base)[0]\<close>,
  \<^verbatim>\<open>review_dir = os.path.join("reviews", base)\<close>.
\<close>

definition derived_name :: "string \<Rightarrow> string" where
  "derived_name file_path =
     (let path_parts = split_on os_sep file_path;
          base = replace_dots (join ''_'' (last3 path_parts))
      in fst (splitext base))"

definition review_dir :: "string \<Rightarrow> string" where
  "review_dir file_path = path_join ''reviews'' (derived_name file_path)"

text \<open>
  The rule in the words of the specification: the last three path components, joined by
  underscores, with the final extension removed.
\<close>

definition derived_name_spec :: "string \<Rightarrow> string" where
  "derived_name_spec file_path =
     fst (splitext (join ''_'' (last3 (split_on os_sep file_path))))"


section \<open>Exceptions, events and the environment\<close>

text \<open>
  An exception is a value: its class and its message (\<^verbatim>\<open>str(e)\<close>). The handlers of the
  script are \<^verbatim>\<open>except FileNotFoundError\<close> and \<^verbatim>\<open>except Exception\<close>; the latter does not
  catch a \<^verbatim>\<open>KeyboardInterrupt\<close>.
\<close>

datatype exn_kind =
  FileNotFoundError | AttributeError | KeyError | TypeError | OSError | RuntimeFailure
  | KeyboardInterrupt

datatype py_error = Exn exn_kind string

fun exn_class :: "py_error \<Rightarrow> exn_kind" where
  "exn_class (Exn k m) = k"

fun exn_str :: "py_error \<Rightarrow> string" where
  "exn_str (Exn k m) = m"

definition is_Exception :: "py_error \<Rightarrow> bool" where
  "is_Exception e = (exn_class e \<noteq> KeyboardInterrupt)"

text \<open>
  An event of the trace is a dynamically typed object. The script reads \<^verbatim>\<open>item.type\<close> with
  \<^verbatim>\<open>getattr(item, "type", None)\<close> and every other field directly, so each field is optional
  here and a read of an absent one is the exception Python raises. The payload
  \<^verbatim>\<open>item.raw_item\<close> is read by attribute (\<^verbatim>\<open>.name\<close>, \<^verbatim>\<open>.call_id\<close>, \<^verbatim>\<open>.arguments\<close>, \<^verbatim>\<open>.content\<close>) in
  three branches and by key (\<^verbatim>\<open>['call_id']\<close>) in the tool-result branch; \<open>raw_str\<close> is
  \<^verbatim>\<open>str(item.raw_item)\<close>. A chunk of \<^verbatim>\<open>content\<close> is its \<^verbatim>\<open>.text\<close>, when it has one.
\<close>

record raw_item =
  raw_name :: "string option"
  raw_call_id :: "string option"
  raw_arguments :: "string option"
  raw_key_call_id :: "string option"
  raw_content :: "string option list option"
  raw_str :: string

record item =
  item_type :: "string option"
  item_raw :: "raw_item option"
  item_output :: "string option"

text \<open>What \<^verbatim>\<open>Runner.run\<close> returns: the trace, the final answer and \<^verbatim>\<open>str(result)\<close>.\<close>

record run_result =
  new_items :: "item list"
  final_output :: string
  result_str :: string

text \<open>
  Everything the script does to the outside, in the order it does it. \<open>OpenRead\<close>,
  \<open>MakeDirs\<close>, \<open>OpenWrite\<close> and \<open>Close\<close> are attempts: they are logged whether or not they
  succeed. \<open>Write\<close> and \<open>Print\<close> are logged when they succeed.
\<close>

datatype effect =
    Print string
  | OpenRead string
  | RunAgent string string
  | MakeDirs string
  | OpenWrite string
  | Write string string
  | Close string

text \<open>
  The outside world: the file system, the agent runtime, and the text Python prints for
  a set (the order of its elements is not fixed by the language). Of the file system:
  \<open>open_write f\<close> is the exception of \<^verbatim>\<open>open(f, "w")\<close>, if it raises; \<open>write_err f k d\<close> is the
  exception of the write of \<open>d\<close> that comes after \<open>k\<close> writes to the open file \<open>f\<close>, if it
  raises; \<open>close_err f\<close> is the exception of closing \<open>f\<close> at the end of its \<^verbatim>\<open>with\<close> block, if
  it raises. \<open>print_err\<close> is the exception of printing a confirmation line, which has a
  character outside ASCII, if standard output refuses it; the other lines of the run are
  taken to print.
\<close>

record env =
  read_file :: "string \<Rightarrow> py_error + string"
  run_agent :: "string \<Rightarrow> py_error + run_result"
  makedirs :: "string \<Rightarrow> py_error option"
  open_write :: "string \<Rightarrow> py_error option"
  write_err :: "string \<Rightarrow> nat \<Rightarrow> string \<Rightarrow> py_error option"
  close_err :: "string \<Rightarrow> py_error option"
  print_err :: "string \<Rightarrow> py_error option"
  repr_set :: "string set \<Rightarrow> string"

section \<open>The Event Classifier\<close>

definition nl :: string where
  "nl = [CHR 0x0A]"

text \<open>\<^verbatim>\<open>s.lower()\<close> on ASCII letters; other characters are left as they are.\<close>

definition lower_char :: "char \<Rightarrow> char" where
  "lower_char c =
     (case map_of (zip ''ABCDEFGHIJKLMNOPQRSTUVWXYZ'' ''abcdefghijklmnopqrstuvwxyz'') c of
        None \<Rightarrow> c
      | Some d \<Rightarrow> d)"

definition lower :: "string \<Rightarrow> string" where
  "lower s = map lower_char s"

text \<open>
  \<^verbatim>\<open>s[:n]\<close>: the first \<open>n\<close> code points of \<open>s\<close>. In UTF-8 a code point is one byte that is
  not a continuation byte (the bytes \<open>10xxxxxx\<close>), followed by its continuation bytes.
\<close>

definition is_continuation :: "char \<Rightarrow> bool" where
  "is_continuation c = (digit7 c \<and> \<not> digit6 c)"

fun take_chars :: "nat \<Rightarrow> string \<Rightarrow> string" where
  "take_chars n [] = []"
| "take_chars n (c # cs) =
     (if is_continuation c then c # take_chars n cs
      else if n = 0 then []
      else c # take_chars (n - 1) cs)"

text \<open>\<^verbatim>\<open>sub in s\<close>: \<open>sub\<close> occurs in \<open>s\<close> as a contiguous substring.\<close>

fun contains :: "string \<Rightarrow> string \<Rightarrow> bool" where
  "contains sub [] = (sub = [])"
| "contains sub (x # xs) = (take (length sub) (x # xs) = sub \<or> contains sub xs)"

text \<open>The variables of the loop at lines 118 to 165, and what has been printed so far.\<close>

record cstate =
  used_tools :: "string set"
  id_to_tool :: "string \<rightharpoonup> string"
  junior_notes :: "string list"
  senior_notes :: "string list"
  manager_notes :: "string list"
  planning_notes :: "string list"
  out :: "effect list"

definition emit :: "effect list \<Rightarrow> cstate \<Rightarrow> cstate" where
  "emit es s = s\<lparr>out := out s @ es\<rparr>"

text \<open>
  One iteration of the loop. The result is the state reached and the exception that left
  the iteration, if one did.
\<close>

definition tool_call_item :: "cstate \<Rightarrow> item \<Rightarrow> cstate \<times> py_error option" where
  "tool_call_item s it =
     (case item_raw it of
        None \<Rightarrow> (s, Some (Exn AttributeError ''raw_item''))
      | Some r \<Rightarrow>
     (case raw_name r of
        None \<Rightarrow> (s, Some (Exn AttributeError ''name''))
      | Some tool_name \<Rightarrow>
     (case raw_call_id r of
        None \<Rightarrow> (s, Some (Exn AttributeError ''call_id''))
      | Some call_id \<Rightarrow>
     (let s1 = s\<lparr>id_to_tool := (id_to_tool s)(call_id \<mapsto> tool_name),
                  used_tools := insert tool_name (used_tools s)\<rparr>;
          s2 = emit [Print ''[TOOL CALL]'',
                     Print (''  tool: '' @ tool_name),
                     Print (''  call_id: '' @ call_id)] s1
      in case raw_arguments r of
           None \<Rightarrow> (s2, Some (Exn AttributeError ''arguments''))
         | Some args \<Rightarrow> (emit [Print (''  args: '' @ args), Print []] s2, None)))))"

definition tool_call_output_item :: "cstate \<Rightarrow> item \<Rightarrow> cstate \<times> py_error option" where
  "tool_call_output_item s it =
     (let s1 = emit [Print ''[TOOL RESULT]''] s
      in case item_raw it of
           None \<Rightarrow> (s1, Some (Exn AttributeError ''raw_item''))
         | Some r \<Rightarrow>
        (case raw_key_call_id r of
           None \<Rightarrow> (s1, Some (Exn KeyError ''call_id''))
         | Some call_id \<Rightarrow>
        (let s2 = emit [Print (''  call_id: '' @ call_id)] s1
         in case item_output it of
              None \<Rightarrow> (s2, Some (Exn AttributeError ''output''))
            | Some output \<Rightarrow>
           (let s3 = emit [Print (''  tool output (truncated):'' @ nl @ take_chars 500 output),
                           Print []] s2;
                tool_name = lower (case id_to_tool s3 call_id of None \<Rightarrow> [] | Some n \<Rightarrow> n)
            in if contains ''junior'' tool_name
               then (s3\<lparr>junior_notes := junior_notes s3 @ [output]\<rparr>, None)
               else if contains ''senior'' tool_name
               then (s3\<lparr>senior_notes := senior_notes s3 @ [output]\<rparr>, None)
               else (s3, None)))))"

text \<open>
  The \<^verbatim>\<open>try\<close> block of the message branch: it succeeds when \<^verbatim>\<open>content\<close> is there and every
  chunk has a text. Every failure inside it is an \<^verbatim>\<open>Exception\<close> and is caught.
\<close>

definition message_text :: "item \<Rightarrow> string option" where
  "message_text it =
     (case item_raw it of
        None \<Rightarrow> None
      | Some r \<Rightarrow>
     (case raw_content r of
        None \<Rightarrow> None
      | Some chunks \<Rightarrow>
          if list_all (\<lambda>c. c \<noteq> None) chunks then Some (join nl (map the chunks)) else None))"

definition message_output_item :: "cstate \<Rightarrow> item \<Rightarrow> cstate \<times> py_error option" where
  "message_output_item s it =
     (let s1 = emit [Print ''[FINAL MESSAGE FRAGMENT]''] s
      in case message_text it of
           Some text \<Rightarrow>
             (emit [Print (take_chars 500 text), Print []]
                (s1\<lparr>manager_notes := manager_notes s1 @ [text]\<rparr>), None)
         | None \<Rightarrow>
        (case item_raw it of
           None \<Rightarrow> (s1, Some (Exn AttributeError ''raw_item''))
         | Some r \<Rightarrow> (emit [Print (take_chars 500 (raw_str r)), Print []] s1, None)))"

definition reasoning_item :: "cstate \<Rightarrow> item \<Rightarrow> cstate \<times> py_error option" where
  "reasoning_item s it =
     (case item_raw it of
        None \<Rightarrow> (s, Some (Exn AttributeError ''raw_item''))
      | Some r \<Rightarrow> (s\<lparr>planning_notes := planning_notes s @ [raw_str r]\<rparr>, None))"

definition classify_item :: "cstate \<Rightarrow> item \<Rightarrow> cstate \<times> py_error option" where
  "classify_item s it =
     (let t = item_type it
      in if t = Some ''tool_call_item'' then tool_call_item s it
         else if t = Some ''tool_call_output_item'' then tool_call_output_item s it
         else if t = Some ''message_output_item'' then message_output_item s it
         else if t = Some ''reasoning_item'' then reasoning_item s it
         else (s, None))"

text \<open>The loop \<^verbatim>\<open>for item in result.new_items\<close>: an exception ends it.\<close>

fun classify :: "cstate \<Rightarrow> item list \<Rightarrow> cstate \<times> py_error option" where
  "classify s [] = (s, None)"
| "classify s (it # its) =
     (case classify_item s it of
        (s', None) \<Rightarrow> classify s' its
      | (s', Some e) \<Rightarrow> (s', Some e))"

text \<open>The state before the loop: lines 97 to 119, with what lines 112 to 117 print.\<close>

definition init_state :: "run_result \<Rightarrow> cstate" where
  "init_state result =
     \<lparr>used_tools = {}, id_to_tool = Map.empty,
      junior_notes = [], senior_notes = [], manager_notes = [], planning_notes = [],
      out = [Print (nl @ nl @ ''=====Manager Agent initiated====='' @ nl @ nl),
             Print (result_str result),
             Print (nl @ nl @ ''======== Debugging ========'' @ nl @ nl)]\<rparr>"

section \<open>The Tool-Usage Auditor\<close>

definition required :: "string set" where
  "required = {''junior_developer_agent'', ''senior_developer_agent''}"

definition warning_line :: string where
  "warning_line = ''WARNING: Manager did NOT call all required tools!''"

text \<open>Lines 168 to 175.\<close>

definition audit :: "env \<Rightarrow> string set \<Rightarrow> effect list" where
  "audit e used =
     [Print (nl @ nl @ ''======== TOOLS USED: ========'' @ nl @ nl),
      Print (repr_set e used)]
     @ (if \<not> required \<subseteq> used
        then [Print warning_line,
              Print (''Expected: '' @ repr_set e required @ '', got: '' @ repr_set e used)]
        else [])"

text \<open>Lines 177 and 178.\<close>

definition emit_final :: "run_result \<Rightarrow> effect list" where
  "emit_final result =
     [Print (nl @ nl @ ''======== FINAL OUTPUT ========'' @ nl @ nl),
      Print (final_output result)]"

section \<open>The Report Writer\<close>

text \<open>The check mark of the confirmation lines, in UTF-8.\<close>

definition check_mark :: string where
  "check_mark = [CHR 0xE2, CHR 0x9C, CHR 0x93]"

text \<open>
  The calls of \<^verbatim>\<open>f.write\<close> inside one \<^verbatim>\<open>with\<close> block, in order, \<open>k\<close> writes having been made
  before: the first that raises ends them.
\<close>

fun write_all :: "env \<Rightarrow> string \<Rightarrow> nat \<Rightarrow> string list \<Rightarrow> effect list \<times> py_error option" where
  "write_all e fn k [] = ([], None)"
| "write_all e fn k (d # ds) =
     (case write_err e fn k d of
        Some err \<Rightarrow> ([], Some err)
      | None \<Rightarrow> (Write fn d # fst (write_all e fn (Suc k) ds), snd (write_all e fn (Suc k) ds)))"

text \<open>
  One of the four blocks of lines 194 to 228: nothing for an empty bucket; otherwise the
  file is opened for writing, the heading is written, then each note and a blank line,
  the file is closed as the \<^verbatim>\<open>with\<close> block is left, and the confirmation is printed. An
  exception from \<^verbatim>\<open>open\<close> leaves the block at once. An exception from a write leaves the
  \<^verbatim>\<open>with\<close> block, which closes the file on the way out; an exception from the close
  takes the place of the one that was on its way. The notes are strings, as the results
  of the two tools are.
\<close>

definition write_bucket ::
  "env \<Rightarrow> string \<Rightarrow> string \<Rightarrow> string \<Rightarrow> string list \<Rightarrow> effect list \<times> py_error option" where
  "write_bucket e fn heading saved notes =
     (if notes = [] then ([], None)
      else (case open_write e fn of
              Some err \<Rightarrow> ([OpenWrite fn], Some err)
            | None \<Rightarrow>
               (let body = write_all e fn 0
                             (heading # concat (map (\<lambda>note. [note, nl @ nl]) notes));
                    closed = [OpenWrite fn] @ fst body @ [Close fn]
                in case close_err e fn of
                     Some err \<Rightarrow> (closed, Some err)
                   | None \<Rightarrow>
                  (case snd body of
                     Some err \<Rightarrow> (closed, Some err)
                   | None \<Rightarrow>
                  (case print_err e saved of
                     Some err \<Rightarrow> (closed, Some err)
                   | None \<Rightarrow> (closed @ [Print saved], None))))))"

text \<open>Statements in sequence: the second runs only when the first raised nothing.\<close>

definition and_then ::
  "effect list \<times> py_error option \<Rightarrow> effect list \<times> py_error option
     \<Rightarrow> effect list \<times> py_error option" where
  "and_then a b = (case snd a of None \<Rightarrow> (fst a @ fst b, snd b) | Some err \<Rightarrow> a)"

definition junior_fn :: "string \<Rightarrow> string" where
  "junior_fn file_path = path_join (review_dir file_path) ''junior_review.md''"

definition senior_fn :: "string \<Rightarrow> string" where
  "senior_fn file_path = path_join (review_dir file_path) ''senior_review.md''"

definition manager_fn :: "string \<Rightarrow> string" where
  "manager_fn file_path = path_join (review_dir file_path) ''manager_review.md''"

definition planner_fn :: "string \<Rightarrow> string" where
  "planner_fn file_path = path_join (review_dir file_path) ''planner_review.md''"

definition write_junior :: "env \<Rightarrow> string \<Rightarrow> cstate \<Rightarrow> effect list \<times> py_error option" where
  "write_junior e file_path s =
     write_bucket e (junior_fn file_path) (''# Junior Developer Review'' @ nl @ nl)
       (nl @ check_mark @ '' Junior review saved to: junior_review.md'') (junior_notes s)"

definition write_senior :: "env \<Rightarrow> string \<Rightarrow> cstate \<Rightarrow> effect list \<times> py_error option" where
  "write_senior e file_path s =
     write_bucket e (senior_fn file_path) (''# Senior Developer Review'' @ nl @ nl)
       (check_mark @ '' Senior review saved to: senior_review.md'') (senior_notes s)"

definition write_manager :: "env \<Rightarrow> string \<Rightarrow> cstate \<Rightarrow> effect list \<times> py_error option" where
  "write_manager e file_path s =
     write_bucket e (manager_fn file_path) (''# Manager Notes'' @ nl @ nl)
       (check_mark @ '' Manger Notes saved to: manager_review.md'') (manager_notes s)"

definition write_planner :: "env \<Rightarrow> string \<Rightarrow> cstate \<Rightarrow> effect list \<times> py_error option" where
  "write_planner e file_path s =
     write_bucket e (planner_fn file_path) (''# Planner Notes'' @ nl @ nl)
       (check_mark @ '' Planner Notes saved to: planning_steps.md'') (planning_notes s)"

text \<open>Lines 181 to 228: the directory is made, then the four blocks run in turn.\<close>

definition report_writer :: "env \<Rightarrow> string \<Rightarrow> cstate \<Rightarrow> effect list \<times> py_error option" where
  "report_writer e file_path s =
     and_then ([MakeDirs (review_dir file_path)], makedirs e (review_dir file_path))
    (and_then (write_junior e file_path s)
    (and_then (write_senior e file_path s)
    (and_then (write_manager e file_path s)
              (write_planner e file_path s))))"

section \<open>The Session Driver\<close>

definition session_id :: string where
  "session_id = ''code_review_debug''"

definition full_input :: "string \<Rightarrow> string \<Rightarrow> string" where
  "full_input user_input file_content =
     user_input @ nl @ nl @ ''File to review:'' @ nl @ ''```'' @ nl @ file_content @ nl @ ''```''"

text \<open>What runs once \<^verbatim>\<open>Runner.run\<close> has returned: lines 96 to 228.\<close>

definition after_run :: "env \<Rightarrow> string \<Rightarrow> run_result \<Rightarrow> effect list \<times> py_error option" where
  "after_run e file_path result =
     (case classify (init_state result) (new_items result) of
        (s, Some err) \<Rightarrow> (out s, Some err)
      | (s, None) \<Rightarrow>
          and_then (out s @ audit e (used_tools s) @ emit_final result, None)
                   (report_writer e file_path s))"

text \<open>
  \<^verbatim>\<open>main\<close>: the effects of the run in order, and the exception that left it, if one did.
\<close>

definition main :: "env \<Rightarrow> string \<Rightarrow> string \<Rightarrow> effect list \<times> py_error option" where
  "main e user_input file_path =
     (case read_file e file_path of
        Inl err \<Rightarrow>
          if exn_class err = FileNotFoundError
          then ([OpenRead file_path, Print (''Error: File not found at '' @ file_path)], None)
          else if is_Exception err
          then ([OpenRead file_path, Print (''Error reading file: '' @ exn_str err)], None)
          else ([OpenRead file_path], Some err)
      | Inr file_content \<Rightarrow>
     (case run_agent e (full_input user_input file_content) of
        Inl err \<Rightarrow>
          ([OpenRead file_path, RunAgent session_id (full_input user_input file_content)],
           Some err)
      | Inr result \<Rightarrow>
          and_then
            ([OpenRead file_path, RunAgent session_id (full_input user_input file_content)],
             None)
            (after_run e file_path result)))"


section \<open>Notions used to state the properties\<close>

text \<open>
  An event has what its branch of the loop reads without a handler around the read: name,
  call id and arguments of a tool invocation; call id (by key) and output of a tool
  result; the payload of a message and of a reasoning event. Other kinds need nothing.
\<close>

definition well_formed :: "item \<Rightarrow> bool" where
  "well_formed it =
     (if item_type it = Some ''tool_call_item'' then
        (case item_raw it of
           None \<Rightarrow> False
         | Some r \<Rightarrow> raw_name r \<noteq> None \<and> raw_call_id r \<noteq> None \<and> raw_arguments r \<noteq> None)
      else if item_type it = Some ''tool_call_output_item'' then
        (case item_raw it of
           None \<Rightarrow> False
         | Some r \<Rightarrow> raw_key_call_id r \<noteq> None \<and> item_output it \<noteq> None)
      else if item_type it = Some ''message_output_item'' \<or> item_type it = Some ''reasoning_item''
      then item_raw it \<noteq> None
      else True)"

text \<open>The event is a tool invocation carrying the call id \<open>c\<close>.\<close>

definition invokes :: "string \<Rightarrow> item \<Rightarrow> bool" where
  "invokes c it =
     (item_type it = Some ''tool_call_item'' \<and>
      (case item_raw it of None \<Rightarrow> False | Some r \<Rightarrow> raw_call_id r = Some c))"

definition is_tool_call :: "item \<Rightarrow> bool" where
  "is_tool_call it = (item_type it = Some ''tool_call_item'')"

text \<open>The effects of the Report Writer on the file system.\<close>

fun is_writer_effect :: "effect \<Rightarrow> bool" where
  "is_writer_effect (MakeDirs d) = True"
| "is_writer_effect (OpenWrite f) = True"
| "is_writer_effect (Write f d) = True"
| "is_writer_effect (Close f) = True"
| "is_writer_effect x = False"

fun is_run_agent :: "effect \<Rightarrow> bool" where
  "is_run_agent (RunAgent i x) = True"
| "is_run_agent x = False"

text \<open>What a trace of effects has written to the file \<open>fn\<close>, in order.\<close>

fun written :: "string \<Rightarrow> effect list \<Rightarrow> string" where
  "written fn [] = []"
| "written fn (Write f d # tr) = (if f = fn then d @ written fn tr else written fn tr)"
| "written fn (x # tr) = written fn tr"

text \<open>
  The text of the file of a bucket: nothing for an empty bucket, otherwise the heading,
  then each note followed by a blank line.
\<close>

definition bucket_text :: "string \<Rightarrow> string list \<Rightarrow> string" where
  "bucket_text heading ns =
     (if ns = [] then [] else heading @ concat (map (\<lambda>note. note @ nl @ nl) ns))"

text \<open>
  The final answer is emitted after the Report Writer: it is printed somewhere behind the
  last effect of the writer.
\<close>

definition emitted_after_writer :: "string \<Rightarrow> effect list \<Rightarrow> bool" where
  "emitted_after_writer answer tr =
     (Print answer \<in> set (takeWhile (\<lambda>x. \<not> is_writer_effect x) (rev tr)))"

text \<open>Events as the runtime builds them, and environments, for the concrete runs below.\<close>

definition tool_call :: "string \<Rightarrow> string \<Rightarrow> string \<Rightarrow> item" where
  "tool_call n c args =
     \<lparr>item_type = Some ''tool_call_item'',
      item_raw = Some \<lparr>raw_name = Some n, raw_call_id = Some c, raw_arguments = Some args,
                        raw_key_call_id = None, raw_content = None, raw_str = n\<rparr>,
      item_output = None\<rparr>"

definition tool_result :: "string \<Rightarrow> string \<Rightarrow> item" where
  "tool_result c text =
     \<lparr>item_type = Some ''tool_call_output_item'',
      item_raw = Some \<lparr>raw_name = None, raw_call_id = None, raw_arguments = None,
                        raw_key_call_id = Some c, raw_content = None, raw_str = text\<rparr>,
      item_output = Some text\<rparr>"

definition message :: "string list \<Rightarrow> item" where
  "message texts =
     \<lparr>item_type = Some ''message_output_item'',
      item_raw = Some \<lparr>raw_name = None, raw_call_id = None, raw_arguments = None,
                        raw_key_call_id = None, raw_content = Some (map Some texts),
                        raw_str = concat texts\<rparr>,
      item_output = None\<rparr>"

definition reasoning :: "string \<Rightarrow> item" where
  "reasoning text =
     \<lparr>item_type = Some ''reasoning_item'',
      item_raw = Some \<lparr>raw_name = None, raw_call_id = None, raw_arguments = None,
                        raw_key_call_id = None, raw_content = None, raw_str = text\<rparr>,
      item_output = None\<rparr>"

text \<open>A tool invocation whose payload has no \<^verbatim>\<open>name\<close>.\<close>

definition nameless_tool_call :: "string \<Rightarrow> item" where
  "nameless_tool_call c =
     \<lparr>item_type = Some ''tool_call_item'',
      item_raw = Some \<lparr>raw_name = None, raw_call_id = Some c, raw_arguments = Some [],
                        raw_key_call_id = None, raw_content = None, raw_str = []\<rparr>,
      item_output = None\<rparr>"

definition empty_state :: cstate where
  "empty_state =
     \<lparr>used_tools = {}, id_to_tool = Map.empty,
      junior_notes = [], senior_notes = [], manager_notes = [], planning_notes = [],
      out = []\<rparr>"

text \<open>A result of the runtime with the trace \<open>items\<close>.\<close>

definition run_of :: "item list \<Rightarrow> run_result" where
  "run_of items = \<lparr>new_items = items, final_output = ''FINAL'', result_str = ''RunResult''\<rparr>"

text \<open>
  A world in which the input file reads as \<open>content\<close>, the runtime returns \<open>result\<close>, the
  directory can be made, opening a file for writing fails exactly for the paths in
  \<open>bad\<close>, and every write, close and print succeeds.
\<close>

definition world :: "string \<Rightarrow> run_result \<Rightarrow> string list \<Rightarrow> env" where
  "world content result bad =
     \<lparr>read_file = (\<lambda>p. Inr content),
      run_agent = (\<lambda>i. Inr result),
      makedirs = (\<lambda>d. None),
      open_write = (\<lambda>f. if f \<in> set bad then Some (Exn OSError f) else None),
      write_err = (\<lambda>f k d. None),
      close_err = (\<lambda>f. None),
      print_err = (\<lambda>line. None),
      repr_set = (\<lambda>S. if S = {} then ''set()'' else ''{...}'')\<rparr>"

text \<open>
  A world with nothing to read or run, in which the second write to the file \<open>f0\<close> fails
  and everything else of the file system succeeds.
\<close>

definition failing_write_world :: "string \<Rightarrow> env" where
  "failing_write_world f0 =
     (world [] (run_of []) [])
       \<lparr>write_err := (\<lambda>f k d. if f = f0 \<and> k = 1
                              then Some (Exn OSError ''No space left on device'')
                              else None)\<rparr>"

text \<open>A world in which the input file does not exist.\<close>

definition missing_file_world :: env where
  "missing_file_world =
     \<lparr>read_file = (\<lambda>p. Inl (Exn FileNotFoundError p)),
      run_agent = (\<lambda>i. Inl (Exn RuntimeFailure [])),
      makedirs = (\<lambda>d. None),
      open_write = (\<lambda>f. None),
      write_err = (\<lambda>f k d. None),
      close_err = (\<lambda>f. None),
      print_err = (\<lambda>line. None),
      repr_set = (\<lambda>S. [])\<rparr>"


section \<open>Facts about the loop\<close>

lemmas event_defs =
  tool_call_def tool_result_def message_def reasoning_def nameless_tool_call_def
  empty_state_def

lemmas branch_defs =
  classify_item_def tool_call_item_def tool_call_output_item_def message_output_item_def
  reasoning_item_def message_text_def emit_def

lemma classify_item_ok_iff: "snd (classify_item s it) = None \<longleftrightarrow> well_formed it"
  by (auto simp: branch_defs well_formed_def Let_def split: option.splits if_splits)

lemma classify_ok_iff: "snd (classify s its) = None \<longleftrightarrow> list_all well_formed its"
proof (induction its arbitrary: s)
  case Nil
  show ?case by simp
next
  case (Cons it its)
  obtain s' r where step: "classify_item s it = (s', r)"
    by (cases "classify_item s it")
  show ?case
  proof (cases r)
    case None
    with step have "well_formed it"
      using classify_item_ok_iff [of s it] by simp
    with step None Cons.IH [of s'] show ?thesis by simp
  next
    case (Some e)
    with step have "\<not> well_formed it"
      using classify_item_ok_iff [of s it] by simp
    with step Some show ?thesis by simp
  qed
qed

lemma classify_append:
  "classify s (xs @ ys) =
     (case classify s xs of (s', None) \<Rightarrow> classify s' ys | (s', Some e) \<Rightarrow> (s', Some e))"
  by (induction xs arbitrary: s) (auto split: prod.splits option.splits)

text \<open>An event that does not invoke with the call id \<open>c\<close> leaves the entry of \<open>c\<close> alone.\<close>

lemma classify_item_id_to_tool:
  "\<not> invokes c it \<Longrightarrow> id_to_tool (fst (classify_item s it)) c = id_to_tool s c"
  by (auto simp: branch_defs invokes_def Let_def split: option.splits if_splits)

lemma classify_id_to_tool:
  "list_all (\<lambda>it. \<not> invokes c it) its \<Longrightarrow> id_to_tool (fst (classify s its)) c = id_to_tool s c"
proof (induction its arbitrary: s)
  case Nil
  show ?case by simp
next
  case (Cons it its)
  obtain s' r where step: "classify_item s it = (s', r)"
    by (cases "classify_item s it")
  from Cons.prems have "id_to_tool s' c = id_to_tool s c"
    using classify_item_id_to_tool [of c it s] step by simp
  with Cons step show ?case by (cases r) simp_all
qed

text \<open>Only a tool invocation adds to the set of used tools.\<close>

lemma classify_item_used_tools:
  "\<not> is_tool_call it \<Longrightarrow> used_tools (fst (classify_item s it)) = used_tools s"
  by (auto simp: branch_defs is_tool_call_def Let_def split: option.splits if_splits)

lemma classify_used_tools:
  "list_all (\<lambda>it. \<not> is_tool_call it) its \<Longrightarrow> used_tools (fst (classify s its)) = used_tools s"
proof (induction its arbitrary: s)
  case Nil
  show ?case by simp
next
  case (Cons it its)
  obtain s' r where step: "classify_item s it = (s', r)"
    by (cases "classify_item s it")
  from Cons.prems have "used_tools s' = used_tools s"
    using classify_item_used_tools [of it s] step by simp
  with Cons step show ?case by (cases r) simp_all
qed

text \<open>The buckets and the printed output only grow at the end.\<close>

lemma classify_item_grows:
  "(\<exists>zs. junior_notes (fst (classify_item s it)) = junior_notes s @ zs) \<and>
   (\<exists>zs. senior_notes (fst (classify_item s it)) = senior_notes s @ zs) \<and>
   (\<exists>zs. manager_notes (fst (classify_item s it)) = manager_notes s @ zs) \<and>
   (\<exists>zs. planning_notes (fst (classify_item s it)) = planning_notes s @ zs) \<and>
   (\<exists>zs. out (fst (classify_item s it)) = out s @ zs)"
  by (auto simp: branch_defs Let_def split: option.splits if_splits)

lemma classify_grows:
  "(\<exists>zs. junior_notes (fst (classify s its)) = junior_notes s @ zs) \<and>
   (\<exists>zs. senior_notes (fst (classify s its)) = senior_notes s @ zs) \<and>
   (\<exists>zs. manager_notes (fst (classify s its)) = manager_notes s @ zs) \<and>
   (\<exists>zs. planning_notes (fst (classify s its)) = planning_notes s @ zs) \<and>
   (\<exists>zs. out (fst (classify s its)) = out s @ zs)"
proof (induction its arbitrary: s)
  case Nil
  show ?case by simp
next
  case (Cons it its)
  obtain s' r where step: "classify_item s it = (s', r)"
    by (cases "classify_item s it")
  have one:
    "(\<exists>zs. junior_notes s' = junior_notes s @ zs) \<and>
     (\<exists>zs. senior_notes s' = senior_notes s @ zs) \<and>
     (\<exists>zs. manager_notes s' = manager_notes s @ zs) \<and>
     (\<exists>zs. planning_notes s' = planning_notes s @ zs) \<and>
     (\<exists>zs. out s' = out s @ zs)"
    using classify_item_grows [of s it] step by simp
  show ?case
  proof (cases r)
    case None
    then have "classify s (it # its) = classify s' its" using step by simp
    with one Cons.IH [of s'] show ?thesis by (metis append.assoc)
  next
    case (Some e)
    then have "classify s (it # its) = (s', Some e)" using step by simp
    with one show ?thesis by simp
  qed
qed

section \<open>The derived directory name\<close>

lemma rfind_ge: "- 1 \<le> rfind c s"
proof -
  have "length (takeWhile (\<lambda>x. x \<noteq> c) (rev s)) \<le> length s"
    using length_takeWhile_le [of "\<lambda>x. x \<noteq> c" "rev s"] by simp
  then show ?thesis by (simp add: rfind_def)
qed

lemma rfind_absent: "c \<notin> set s \<Longrightarrow> rfind c s = - 1"
  by (simp add: rfind_def)

lemma splitext_no_dot: "CHR ''.'' \<notin> set s \<Longrightarrow> splitext s = (s, [])"
  using rfind_ge [of os_sep s] by (simp add: splitext_def rfind_absent Let_def)

lemma replace_dots_no_dot: "CHR ''.'' \<notin> set (replace_dots s)"
  by (auto simp: replace_dots_def)

lemma derived_name_eq:
  "derived_name fp = replace_dots (join ''_'' (last3 (split_on os_sep fp)))"
  by (simp add: derived_name_def Let_def splitext_no_dot replace_dots_no_dot)

text \<open>
  Claim C4, as stated, fails. With the final extension removed, \<^verbatim>\<open>/a/b/c/file.py\<close> would
  give \<^verbatim>\<open>b_c_file\<close>; the script gives \<^verbatim>\<open>b_c_file_py\<close>, since it replaces the dot before
  \<^verbatim>\<open>splitext\<close> can find an extension.
\<close>

theorem derived_name_keeps_extension:
  "derived_name_spec ''/a/b/c/file.py'' = ''b_c_file'' \<and>
   derived_name ''/a/b/c/file.py'' \<noteq> derived_name_spec ''/a/b/c/file.py''"
  by (simp add: derived_name_eq derived_name_spec_def os_sep_def last3_def replace_dots_def
      splitext_def rfind_def)

text \<open>
  Claim C4, amended. The derived name is a function of the path alone: the last three
  pieces of the path cut at the slashes (all of them when there are fewer), joined by
  underscores, with every dot turned into an underscore; no extension is removed. So
  \<^verbatim>\<open>/a/b/c/file.py\<close>, of more than three pieces, and \<^verbatim>\<open>b/c/file.py\<close>, of exactly three, both
  give \<^verbatim>\<open>b_c_file_py\<close>.
\<close>

theorem derived_name_replaces_dots:
  "derived_name fp = replace_dots (join ''_'' (last3 (split_on os_sep fp))) \<and>
   derived_name ''/a/b/c/file.py'' = ''b_c_file_py'' \<and>
   derived_name ''b/c/file.py'' = ''b_c_file_py''"
  by (simp add: derived_name_eq os_sep_def last3_def replace_dots_def)


section \<open>Malformed events\<close>

text \<open>
  Claim C1, as stated, fails. A tool invocation whose payload has no \<^verbatim>\<open>name\<close> raises
  \<^verbatim>\<open>AttributeError\<close> at line 124: the loop is left and the reasoning event behind it is
  never classified.
\<close>

theorem classify_raises_on_missing_name:
  "snd (classify empty_state [nameless_tool_call ''c1'', reasoning ''plan'']) =
     Some (Exn AttributeError ''name'') \<and>
   planning_notes (fst (classify empty_state [nameless_tool_call ''c1'', reasoning ''plan''])) = []"
  by (simp add: event_defs branch_defs)

text \<open>
  Claim C1, amended. The classification pass completes without raising exactly when every
  event carries the fields its branch reads outside a handler: a tool invocation its
  name, call id and arguments, a tool result its call id and output, a message and a
  reasoning event their payload. At the first event that lacks one of them the pass
  raises and ends: its result is the state and the exception of the iteration of that
  event, whatever events come behind it, so none of those is classified. Two cases are
  handled in place: a message whose content cannot be read is printed from
  \<^verbatim>\<open>str(item.raw_item)\<close>, cut to its first 500 characters, and adds no note, and an event of
  any other kind is ignored.
\<close>

theorem classify_stops_at_first_malformed:
  "(snd (classify s its) = None \<longleftrightarrow> list_all well_formed its) \<and>
   (list_all well_formed pre \<and> \<not> well_formed bad \<longrightarrow>
      snd (classify_item (fst (classify s pre)) bad) \<noteq> None \<and>
      classify s (pre @ bad # post) = classify_item (fst (classify s pre)) bad) \<and>
   (item_type it = Some ''message_output_item'' \<and> item_raw it = Some r \<and> message_text it = None
      \<longrightarrow> classify_item s it =
            (emit [Print ''[FINAL MESSAGE FRAGMENT]'', Print (take_chars 500 (raw_str r)),
                   Print []] s,
             None)) \<and>
   (item_type it \<notin> {Some ''tool_call_item'', Some ''tool_call_output_item'',
                     Some ''message_output_item'', Some ''reasoning_item''}
      \<longrightarrow> classify_item s it = (s, None))"
proof (intro conjI impI)
  show "snd (classify s its) = None \<longleftrightarrow> list_all well_formed its"
    by (rule classify_ok_iff)
next
  assume a: "list_all well_formed pre \<and> \<not> well_formed bad"
  obtain s1 where pre: "classify s pre = (s1, None)"
    using a classify_ok_iff [of s pre] by (cases "classify s pre") simp
  obtain s2 r2 where step: "classify_item s1 bad = (s2, r2)"
    by (cases "classify_item s1 bad")
  have "r2 \<noteq> None"
    using a step classify_item_ok_iff [of s1 bad] by auto
  then obtain err where r2: "r2 = Some err"
    by (cases r2) simp_all
  show "snd (classify_item (fst (classify s pre)) bad) \<noteq> None"
    using pre step r2 by simp
  show "classify s (pre @ bad # post) = classify_item (fst (classify s pre)) bad"
    using pre step r2 by (simp add: classify_append)
next
  assume "item_type it = Some ''message_output_item'' \<and> item_raw it = Some r \<and>
    message_text it = None"
  then show "classify_item s it =
    (emit [Print ''[FINAL MESSAGE FRAGMENT]'', Print (take_chars 500 (raw_str r)), Print []] s,
     None)"
    by (simp add: classify_item_def message_output_item_def emit_def)
next
  assume "item_type it \<notin> {Some ''tool_call_item'', Some ''tool_call_output_item'',
                     Some ''message_output_item'', Some ''reasoning_item''}"
  then show "classify_item s it = (s, None)"
    by (simp add: classify_item_def)
qed

theorem classify_stops_at_first_malformed_witness:
  "list_all well_formed
     [tool_call ''junior_developer_agent'' ''c1'' ''{}'', tool_result ''c1'' ''questions'',
      message [''summary''], reasoning ''plan''] \<and>
   snd (classify empty_state
     [tool_call ''junior_developer_agent'' ''c1'' ''{}'', tool_result ''c1'' ''questions'',
      message [''summary''], reasoning ''plan'']) = None \<and>
   \<not> well_formed (nameless_tool_call ''c2'') \<and>
   classify empty_state
     ([tool_call ''junior_developer_agent'' ''c1'' ''{}'', tool_result ''c1'' ''questions'']
      @ nameless_tool_call ''c2'' # [message [''summary''], reasoning ''plan'']) =
     (fst (classify empty_state
        [tool_call ''junior_developer_agent'' ''c1'' ''{}'', tool_result ''c1'' ''questions'']),
      Some (Exn AttributeError ''name'')) \<and>
   classify_item empty_state ((reasoning ''raw'')\<lparr>item_type := Some ''message_output_item''\<rparr>) =
     (empty_state\<lparr>out := [Print ''[FINAL MESSAGE FRAGMENT]'', Print ''raw'', Print []]\<rparr>, None)"
proof -
  let ?pre = "[tool_call ''junior_developer_agent'' ''c1'' ''{}'',
               tool_result ''c1'' ''questions'']"
  let ?post = "[message [''summary''], reasoning ''plan'']"
  let ?its = "[tool_call ''junior_developer_agent'' ''c1'' ''{}'',
               tool_result ''c1'' ''questions'', message [''summary''], reasoning ''plan'']"
  let ?bad = "nameless_tool_call ''c2''"
  let ?it = "(reasoning ''raw'')\<lparr>item_type := Some ''message_output_item''\<rparr>"
  let ?r = "\<lparr>raw_name = None, raw_call_id = None, raw_arguments = None,
             raw_key_call_id = None, raw_content = None, raw_str = ''raw''\<rparr>"
  have wf: "list_all well_formed ?its"
    by (simp add: event_defs well_formed_def)
  have pre: "list_all well_formed ?pre \<and> \<not> well_formed ?bad"
    by (simp add: event_defs well_formed_def)
  have msg: "item_type ?it = Some ''message_output_item'' \<and> item_raw ?it = Some ?r \<and>
      message_text ?it = None"
    by (simp add: reasoning_def message_text_def)
  have bad: "\<And>s. classify_item s ?bad = (s, Some (Exn AttributeError ''name''))"
    by (simp add: classify_item_def tool_call_item_def nameless_tool_call_def)
  have cut: "take_chars 500 ''raw'' = ''raw''"
    by (simp add: is_continuation_def)
  show ?thesis
    using wf pre msg bad cut
      classify_stops_at_first_malformed [of empty_state ?its ?pre ?bad ?post ?it ?r]
    by (simp add: emit_def empty_state_def)
qed

section \<open>Tool results and their buckets\<close>

text \<open>
  Claim C6. A tool result whose call id no earlier invocation of the trace carries is
  classified without an exception: the id has no entry in the map, so the name is the
  empty string, no bucket changes, and the loop goes on with the events behind it.
\<close>

theorem unresolved_call_id_is_dropped:
  assumes "list_all (\<lambda>it. \<not> invokes c it) pre"
    and "classify (init_state result) pre = (s, None)"
    and "item_type res = Some ''tool_call_output_item''"
    and "item_raw res = Some r" and "raw_key_call_id r = Some c"
    and "item_output res = Some text"
  shows "id_to_tool s c = None \<and>
         snd (classify_item s res) = None \<and>
         junior_notes (fst (classify_item s res)) = junior_notes s \<and>
         senior_notes (fst (classify_item s res)) = senior_notes s \<and>
         manager_notes (fst (classify_item s res)) = manager_notes s \<and>
         planning_notes (fst (classify_item s res)) = planning_notes s \<and>
         classify (init_state result) (pre @ res # post) =
           classify (fst (classify_item s res)) post"
proof -
  have "id_to_tool (fst (classify (init_state result) pre)) c = id_to_tool (init_state result) c"
    using assms(1) by (rule classify_id_to_tool)
  then have none: "id_to_tool s c = None"
    using assms(2) by (simp add: init_state_def)
  have low: "lower [] = []"
    by (simp add: lower_def)
  have step: "classify_item s res =
      (emit [Print ''[TOOL RESULT]'', Print (''  call_id: '' @ c),
             Print (''  tool output (truncated):'' @ nl @ take_chars 500 text), Print []] s, None)"
    using assms(3-6) none
    by (simp add: classify_item_def tool_call_output_item_def emit_def Let_def low)
  have whole: "classify (init_state result) (pre @ res # post) =
      classify (fst (classify_item s res)) post"
    using assms(2) step by (simp add: classify_append)
  show ?thesis
    using none step whole by (simp add: emit_def)
qed

theorem unresolved_call_id_is_dropped_witness:
  "id_to_tool (fst (classify (init_state (run_of []))
       [tool_call ''junior_developer_agent'' ''c1'' ''{}''])) ''c9'' = None \<and>
   snd (classify (init_state (run_of []))
       [tool_call ''junior_developer_agent'' ''c1'' ''{}'', tool_result ''c9'' ''orphan'']) = None \<and>
   junior_notes (fst (classify (init_state (run_of []))
       [tool_call ''junior_developer_agent'' ''c1'' ''{}'', tool_result ''c9'' ''orphan''])) = [] \<and>
   senior_notes (fst (classify (init_state (run_of []))
       [tool_call ''junior_developer_agent'' ''c1'' ''{}'', tool_result ''c9'' ''orphan''])) = []"
proof -
  let ?pre = "[tool_call ''junior_developer_agent'' ''c1'' ''{}'']"
  let ?res = "tool_result ''c9'' ''orphan''"
  let ?r = "\<lparr>raw_name = None, raw_call_id = None, raw_arguments = None,
             raw_key_call_id = Some ''c9'', raw_content = None, raw_str = ''orphan''\<rparr>"
  let ?s = "fst (classify (init_state (run_of [])) ?pre)"
  have 1: "list_all (\<lambda>it. \<not> invokes ''c9'' it) ?pre"
    by (simp add: tool_call_def invokes_def)
  have 2: "classify (init_state (run_of [])) ?pre = (?s, None)"
    by (simp add: tool_call_def branch_defs)
  have 3: "item_type ?res = Some ''tool_call_output_item''"
    by (simp add: tool_result_def)
  have 4: "item_raw ?res = Some ?r"
    by (simp add: tool_result_def)
  have 5: "raw_key_call_id ?r = Some ''c9''"
    by simp
  have 6: "item_output ?res = Some ''orphan''"
    by (simp add: tool_result_def)
  have s: "junior_notes ?s = [] \<and> senior_notes ?s = []"
    by (simp add: tool_call_def branch_defs init_state_def)
  show ?thesis
    using unresolved_call_id_is_dropped [OF 1 2 3 4 5 6, of "[]"] s by simp
qed

text \<open>
  Claim C10. When the name a tool result resolves to contains both \<^verbatim>\<open>junior\<close> and
  \<^verbatim>\<open>senior\<close>, ignoring case, the text goes to the junior bucket alone: the junior test is
  the \<^verbatim>\<open>if\<close>, the senior test its \<^verbatim>\<open>elif\<close>.
\<close>

theorem junior_takes_priority:
  assumes "item_type res = Some ''tool_call_output_item''"
    and "item_raw res = Some r" and "raw_key_call_id r = Some c"
    and "item_output res = Some text"
    and "id_to_tool s c = Some n"
    and "contains ''junior'' (lower n)" and "contains ''senior'' (lower n)"
  shows "snd (classify_item s res) = None \<and>
         junior_notes (fst (classify_item s res)) = junior_notes s @ [text] \<and>
         senior_notes (fst (classify_item s res)) = senior_notes s \<and>
         manager_notes (fst (classify_item s res)) = manager_notes s \<and>
         planning_notes (fst (classify_item s res)) = planning_notes s"
  using assms by (simp add: classify_item_def tool_call_output_item_def emit_def Let_def)

theorem junior_takes_priority_witness:
  "junior_notes (fst (classify_item
      (empty_state\<lparr>id_to_tool := [''c1'' \<mapsto> ''Junior_Senior_pair''], senior_notes := [''s'']\<rparr>)
      (tool_result ''c1'' ''text''))) = [''text''] \<and>
   senior_notes (fst (classify_item
      (empty_state\<lparr>id_to_tool := [''c1'' \<mapsto> ''Junior_Senior_pair''], senior_notes := [''s'']\<rparr>)
      (tool_result ''c1'' ''text''))) = [''s'']"
proof -
  let ?s = "empty_state\<lparr>id_to_tool := [''c1'' \<mapsto> ''Junior_Senior_pair''],
              senior_notes := [''s'']\<rparr>"
  let ?r = "\<lparr>raw_name = None, raw_call_id = None, raw_arguments = None,
             raw_key_call_id = Some ''c1'', raw_content = None, raw_str = ''text''\<rparr>"
  have 1: "item_type (tool_result ''c1'' ''text'') = Some ''tool_call_output_item''"
    by (simp add: tool_result_def)
  have 2: "item_raw (tool_result ''c1'' ''text'') = Some ?r"
    by (simp add: tool_result_def)
  have 3: "raw_key_call_id ?r = Some ''c1''"
    by simp
  have 4: "item_output (tool_result ''c1'' ''text'') = Some ''text''"
    by (simp add: tool_result_def)
  have 5: "id_to_tool ?s ''c1'' = Some ''Junior_Senior_pair''"
    by (simp add: empty_state_def)
  have 6: "contains ''junior'' (lower ''Junior_Senior_pair'')"
    by (simp add: lower_def lower_char_def)
  have 7: "contains ''senior'' (lower ''Junior_Senior_pair'')"
    by (simp add: lower_def lower_char_def)
  show ?thesis
    using junior_takes_priority [OF 1 2 3 4 5 6 7] by (simp add: empty_state_def)
qed

text \<open>
  Claim C5, as stated, fails. The tool \<^verbatim>\<open>junior_senior_agent\<close> has \<^verbatim>\<open>senior\<close> in its name,
  and the text of its result is not appended to the senior bucket: it goes to the junior
  bucket.
\<close>

theorem senior_name_not_in_senior_bucket:
  "contains ''senior'' (lower ''junior_senior_agent'') \<and>
   senior_notes (fst (classify empty_state
     [tool_call ''junior_senior_agent'' ''c1'' ''{}'', tool_result ''c1'' ''text''])) = [] \<and>
   junior_notes (fst (classify empty_state
     [tool_call ''junior_senior_agent'' ''c1'' ''{}'', tool_result ''c1'' ''text''])) = [''text'']"
  by (simp add: event_defs branch_defs lower_def lower_char_def)

text \<open>
  Claim C5, amended. Take a tool invocation with call id \<open>c\<close> and tool name \<open>n\<close>, then
  events none of which invokes with the id \<open>c\<close> again, then a tool result with the id \<open>c\<close>,
  in a trace classified without an exception up to the result. If \<open>n\<close> contains
  \<^verbatim>\<open>junior\<close>, ignoring case, the text of the result is appended to the junior bucket and to
  no other; if \<open>n\<close> contains \<^verbatim>\<open>senior\<close> and not \<^verbatim>\<open>junior\<close>, to the senior bucket and to no other;
  if it contains neither, the text is dropped, without an exception.
\<close>

theorem result_goes_to_persona_bucket:
  assumes "item_type call = Some ''tool_call_item''"
    and "item_raw call = Some ri" and "raw_name ri = Some n" and "raw_call_id ri = Some c"
    and "list_all (\<lambda>it. \<not> invokes c it) mid"
    and "classify s0 (pre @ call # mid) = (s, None)"
    and "item_type res = Some ''tool_call_output_item''"
    and "item_raw res = Some rr" and "raw_key_call_id rr = Some c"
    and "item_output res = Some text"
  shows "snd (classify_item s res) = None \<and>
         junior_notes (fst (classify_item s res)) =
           (if contains ''junior'' (lower n) then junior_notes s @ [text] else junior_notes s) \<and>
         senior_notes (fst (classify_item s res)) =
           (if \<not> contains ''junior'' (lower n) \<and> contains ''senior'' (lower n)
            then senior_notes s @ [text] else senior_notes s) \<and>
         manager_notes (fst (classify_item s res)) = manager_notes s \<and>
         planning_notes (fst (classify_item s res)) = planning_notes s"
proof -
  obtain sa where pre: "classify s0 pre = (sa, None)"
    and rest: "classify sa (call # mid) = (s, None)"
    using assms(6) by (auto simp: classify_append split: prod.splits option.splits)
  obtain sb where stepc: "classify_item sa call = (sb, None)"
    and mid: "classify sb mid = (s, None)"
    using rest by (auto split: prod.splits option.splits)
  have "id_to_tool sb c = Some n"
    using stepc assms(1-4)
    by (auto simp: classify_item_def tool_call_item_def emit_def Let_def split: option.splits)
  moreover have "id_to_tool (fst (classify sb mid)) c = id_to_tool sb c"
    using assms(5) by (rule classify_id_to_tool)
  ultimately have name: "id_to_tool s c = Some n"
    using mid by simp
  show ?thesis
    using assms(7-10) name
    by (simp add: classify_item_def tool_call_output_item_def emit_def Let_def)
qed

theorem result_goes_to_persona_bucket_witness:
  "senior_notes (fst (classify_item
     (fst (classify empty_state
       [tool_call ''senior_developer_agent'' ''c2'' ''{}'',
        tool_call ''junior_developer_agent'' ''c1'' ''{}'', tool_result ''c1'' ''questions'']))
     (tool_result ''c2'' ''answers''))) = [''answers''] \<and>
   junior_notes (fst (classify_item
     (fst (classify empty_state
       [tool_call ''senior_developer_agent'' ''c2'' ''{}'',
        tool_call ''junior_developer_agent'' ''c1'' ''{}'', tool_result ''c1'' ''questions'']))
     (tool_result ''c2'' ''answers''))) = [''questions'']"
proof -
  let ?call = "tool_call ''senior_developer_agent'' ''c2'' ''{}''"
  let ?ri = "\<lparr>raw_name = Some ''senior_developer_agent'', raw_call_id = Some ''c2'',
              raw_arguments = Some ''{}'', raw_key_call_id = None, raw_content = None,
              raw_str = ''senior_developer_agent''\<rparr>"
  let ?mid = "[tool_call ''junior_developer_agent'' ''c1'' ''{}'',
               tool_result ''c1'' ''questions'']"
  let ?res = "tool_result ''c2'' ''answers''"
  let ?rr = "\<lparr>raw_name = None, raw_call_id = None, raw_arguments = None,
              raw_key_call_id = Some ''c2'', raw_content = None, raw_str = ''answers''\<rparr>"
  let ?s = "fst (classify empty_state ([] @ ?call # ?mid))"
  have 1: "item_type ?call = Some ''tool_call_item''"
    by (simp add: tool_call_def)
  have 2: "item_raw ?call = Some ?ri"
    by (simp add: tool_call_def)
  have 3: "raw_name ?ri = Some ''senior_developer_agent''"
    by simp
  have 4: "raw_call_id ?ri = Some ''c2''"
    by simp
  have 5: "list_all (\<lambda>it. \<not> invokes ''c2'' it) ?mid"
    by (simp add: tool_call_def tool_result_def invokes_def)
  have 6: "classify empty_state ([] @ ?call # ?mid) = (?s, None)"
    by (simp add: event_defs branch_defs lower_def lower_char_def)
  have 7: "item_type ?res = Some ''tool_call_output_item''"
    by (simp add: tool_result_def)
  have 8: "item_raw ?res = Some ?rr"
    by (simp add: tool_result_def)
  have 9: "raw_key_call_id ?rr = Some ''c2''"
    by simp
  have 10: "item_output ?res = Some ''answers''"
    by (simp add: tool_result_def)
  have names: "\<not> contains ''junior'' (lower ''senior_developer_agent'') \<and>
      contains ''senior'' (lower ''senior_developer_agent'')"
    by (simp add: lower_def lower_char_def)
  have s: "junior_notes ?s = [''questions''] \<and> senior_notes ?s = []"
    by (simp add: event_defs branch_defs lower_def lower_char_def)
  show ?thesis
    using result_goes_to_persona_bucket [OF 1 2 3 4 5 6 7 8 9 10] names s by simp
qed

section \<open>Facts about the Report Writer\<close>

lemma written_append: "written fn (xs @ ys) = written fn xs @ written fn ys"
  by (induction fn xs rule: written.induct) simp_all

lemma written_map_Write:
  "written fn (map (Write f) ds) = (if f = fn then concat ds else [])"
  by (induction ds) auto

lemma write_all_takes:
  "\<exists>n. fst (write_all e f k ds) = map (Write f) (take n ds)"
proof (induction ds arbitrary: k)
  case Nil
  show ?case by simp
next
  case (Cons d ds)
  show ?case
  proof (cases "write_err e f k d")
    case None
    from Cons [of "Suc k"] obtain n
      where "fst (write_all e f (Suc k) ds) = map (Write f) (take n ds)" ..
    with None have "fst (write_all e f k (d # ds)) = map (Write f) (take (Suc n) (d # ds))"
      by simp
    then show ?thesis ..
  next
    case (Some err)
    then have "fst (write_all e f k (d # ds)) = map (Write f) (take 0 (d # ds))"
      by simp
    then show ?thesis ..
  qed
qed

lemma write_all_ok:
  "snd (write_all e f k ds) = None \<Longrightarrow> fst (write_all e f k ds) = map (Write f) ds"
  by (induction ds arbitrary: k) (auto split: option.splits)

lemma concat_notes:
  "concat (concat (map (\<lambda>note. [note, sep]) ns)) = concat (map (\<lambda>note. note @ sep) ns)"
  by (induction ns) simp_all

lemma written_write_all_other:
  "f \<noteq> fn \<Longrightarrow> written fn (fst (write_all e f k ds)) = []"
  using write_all_takes [of e f k ds] by (auto simp: written_map_Write)

lemma open_write_all: "OpenWrite fn \<notin> set (fst (write_all e f k ds))"
  using write_all_takes [of e f k ds] by auto

lemma written_write_bucket:
  "snd (write_bucket e f heading saved ns) = None \<Longrightarrow>
   written fn (fst (write_bucket e f heading saved ns)) =
     (if f = fn \<and> ns \<noteq> [] then heading @ concat (map (\<lambda>note. note @ nl @ nl) ns) else [])"
  by (auto simp: write_bucket_def Let_def written_append written_map_Write write_all_ok
      concat_notes split: option.splits if_splits)

lemma written_write_bucket_other:
  "f \<noteq> fn \<Longrightarrow> written fn (fst (write_bucket e f heading saved ns)) = []"
  by (auto simp: write_bucket_def Let_def written_append written_write_all_other
      split: option.splits)

lemma open_write_bucket:
  "OpenWrite fn \<in> set (fst (write_bucket e f heading saved ns)) \<longleftrightarrow> f = fn \<and> ns \<noteq> []"
  by (auto simp: write_bucket_def Let_def open_write_all split: option.splits)

lemma and_then_ok:
  "and_then a b = (tr, None) \<longleftrightarrow> snd a = None \<and> snd b = None \<and> tr = fst a @ fst b"
  by (cases a; cases b) (auto simp: and_then_def split: option.splits)

lemma path_join_inject:
  "a \<noteq> [] \<Longrightarrow> hd a \<noteq> os_sep \<Longrightarrow> b \<noteq> [] \<Longrightarrow> hd b \<noteq> os_sep \<Longrightarrow>
   path_join d a = path_join d b \<longleftrightarrow> a = b"
  by (auto simp: path_join_def)

lemma fn_distinct:
  "junior_fn fp \<noteq> senior_fn fp" "junior_fn fp \<noteq> manager_fn fp" "junior_fn fp \<noteq> planner_fn fp"
  "senior_fn fp \<noteq> manager_fn fp" "senior_fn fp \<noteq> planner_fn fp" "manager_fn fp \<noteq> planner_fn fp"
  by (simp_all add: junior_fn_def senior_fn_def manager_fn_def planner_fn_def path_join_inject
      os_sep_def)

lemma snd_and_then:
  "snd (and_then a b) = None \<longleftrightarrow> snd a = None \<and> snd b = None"
  by (cases a; cases b) (auto simp: and_then_def split: option.splits)

lemma fst_and_then:
  "snd a = None \<Longrightarrow> fst (and_then a b) = fst a @ fst b"
  by (cases a; cases b) (auto simp: and_then_def split: option.splits)

lemma report_writer_ok:
  assumes "report_writer e fp s = (tr, None)"
  shows "tr = MakeDirs (review_dir fp) # fst (write_junior e fp s) @ fst (write_senior e fp s)
            @ fst (write_manager e fp s) @ fst (write_planner e fp s)"
    and "makedirs e (review_dir fp) = None"
    and "snd (write_junior e fp s) = None" and "snd (write_senior e fp s) = None"
    and "snd (write_manager e fp s) = None" and "snd (write_planner e fp s) = None"
proof -
  from assms have ok: "snd (report_writer e fp s) = None" and tr: "tr = fst (report_writer e fp s)"
    by simp_all
  from ok show m: "makedirs e (review_dir fp) = None"
    and j: "snd (write_junior e fp s) = None" and s: "snd (write_senior e fp s) = None"
    and g: "snd (write_manager e fp s) = None" and p: "snd (write_planner e fp s) = None"
    by (simp_all add: report_writer_def snd_and_then)
  show "tr = MakeDirs (review_dir fp) # fst (write_junior e fp s) @ fst (write_senior e fp s)
            @ fst (write_manager e fp s) @ fst (write_planner e fp s)"
    using tr m j s g p by (simp add: report_writer_def fst_and_then snd_and_then)
qed

lemma report_writer_written:
  assumes "report_writer e fp s = (tr, None)"
  shows "written (junior_fn fp) tr =
           (if junior_notes s = [] then []
            else ''# Junior Developer Review'' @ nl @ nl
                 @ concat (map (\<lambda>note. note @ nl @ nl) (junior_notes s)))"
    and "written (senior_fn fp) tr =
           (if senior_notes s = [] then []
            else ''# Senior Developer Review'' @ nl @ nl
                 @ concat (map (\<lambda>note. note @ nl @ nl) (senior_notes s)))"
    and "written (manager_fn fp) tr =
           (if manager_notes s = [] then []
            else ''# Manager Notes'' @ nl @ nl
                 @ concat (map (\<lambda>note. note @ nl @ nl) (manager_notes s)))"
    and "written (planner_fn fp) tr =
           (if planning_notes s = [] then []
            else ''# Planner Notes'' @ nl @ nl
                 @ concat (map (\<lambda>note. note @ nl @ nl) (planning_notes s)))"
proof -
  note ok = report_writer_ok [OF assms]
  have j: "\<And>fn. written fn (fst (write_junior e fp s)) =
      (if junior_fn fp = fn \<and> junior_notes s \<noteq> []
       then (''# Junior Developer Review'' @ nl @ nl)
            @ concat (map (\<lambda>note. note @ nl @ nl) (junior_notes s)) else [])"
    using ok(3) unfolding write_junior_def by (rule written_write_bucket)
  have s: "\<And>fn. written fn (fst (write_senior e fp s)) =
      (if senior_fn fp = fn \<and> senior_notes s \<noteq> []
       then (''# Senior Developer Review'' @ nl @ nl)
            @ concat (map (\<lambda>note. note @ nl @ nl) (senior_notes s)) else [])"
    using ok(4) unfolding write_senior_def by (rule written_write_bucket)
  have m: "\<And>fn. written fn (fst (write_manager e fp s)) =
      (if manager_fn fp = fn \<and> manager_notes s \<noteq> []
       then (''# Manager Notes'' @ nl @ nl)
            @ concat (map (\<lambda>note. note @ nl @ nl) (manager_notes s)) else [])"
    using ok(5) unfolding write_manager_def by (rule written_write_bucket)
  have p: "\<And>fn. written fn (fst (write_planner e fp s)) =
      (if planner_fn fp = fn \<and> planning_notes s \<noteq> []
       then (''# Planner Notes'' @ nl @ nl)
            @ concat (map (\<lambda>note. note @ nl @ nl) (planning_notes s)) else [])"
    using ok(6) unfolding write_planner_def by (rule written_write_bucket)
  have d: "senior_fn fp \<noteq> junior_fn fp" "manager_fn fp \<noteq> junior_fn fp"
    "planner_fn fp \<noteq> junior_fn fp" "manager_fn fp \<noteq> senior_fn fp"
    "planner_fn fp \<noteq> senior_fn fp" "planner_fn fp \<noteq> manager_fn fp"
    using fn_distinct [of fp] by simp_all
  show "written (junior_fn fp) tr =
           (if junior_notes s = [] then []
            else ''# Junior Developer Review'' @ nl @ nl
                 @ concat (map (\<lambda>note. note @ nl @ nl) (junior_notes s)))"
    by (simp add: ok(1) written_append j s m p d)
  show "written (senior_fn fp) tr =
           (if senior_notes s = [] then []
            else ''# Senior Developer Review'' @ nl @ nl
                 @ concat (map (\<lambda>note. note @ nl @ nl) (senior_notes s)))"
    by (simp add: ok(1) written_append j s m p d fn_distinct)
  show "written (manager_fn fp) tr =
           (if manager_notes s = [] then []
            else ''# Manager Notes'' @ nl @ nl
                 @ concat (map (\<lambda>note. note @ nl @ nl) (manager_notes s)))"
    by (simp add: ok(1) written_append j s m p d fn_distinct)
  show "written (planner_fn fp) tr =
           (if planning_notes s = [] then []
            else ''# Planner Notes'' @ nl @ nl
                 @ concat (map (\<lambda>note. note @ nl @ nl) (planning_notes s)))"
    by (simp add: ok(1) written_append j s m p d fn_distinct)
qed

lemma report_writer_opens:
  assumes "report_writer e fp s = (tr, None)"
  shows "OpenWrite (junior_fn fp) \<in> set tr \<longleftrightarrow> junior_notes s \<noteq> []"
    and "OpenWrite (senior_fn fp) \<in> set tr \<longleftrightarrow> senior_notes s \<noteq> []"
    and "OpenWrite (manager_fn fp) \<in> set tr \<longleftrightarrow> manager_notes s \<noteq> []"
    and "OpenWrite (planner_fn fp) \<in> set tr \<longleftrightarrow> planning_notes s \<noteq> []"
  using fn_distinct [of fp]
  by (auto simp: report_writer_ok(1) [OF assms] write_junior_def write_senior_def
      write_manager_def write_planner_def open_write_bucket)

lemmas writer_defs =
  report_writer_def and_then_def write_junior_def write_senior_def write_manager_def
  write_planner_def write_bucket_def Let_def junior_fn_def senior_fn_def manager_fn_def planner_fn_def
  review_dir_def path_join_def derived_name_eq os_sep_def last3_def replace_dots_def

text \<open>
  Claim C8. When the Report Writer returns without an exception, the file of each of the
  four buckets is opened exactly when the bucket is not empty, and what is written to it
  is the heading of the bucket, then each note followed by a blank line, in bucket order.
  The buckets only grow at the end while the trace is classified: the notes of the events
  of a prefix \<open>xs\<close> of the trace come before the notes of the events behind it, so the
  notes are in the order of their events.
\<close>

theorem report_files:
  assumes "report_writer e fp s = (tr, None)"
    and "classify s0 (xs @ ys) = (s, None)"
  shows "(OpenWrite (junior_fn fp) \<in> set tr \<longleftrightarrow> junior_notes s \<noteq> []) \<and>
         (OpenWrite (senior_fn fp) \<in> set tr \<longleftrightarrow> senior_notes s \<noteq> []) \<and>
         (OpenWrite (manager_fn fp) \<in> set tr \<longleftrightarrow> manager_notes s \<noteq> []) \<and>
         (OpenWrite (planner_fn fp) \<in> set tr \<longleftrightarrow> planning_notes s \<noteq> []) \<and>
         written (junior_fn fp) tr =
           (if junior_notes s = [] then []
            else ''# Junior Developer Review'' @ nl @ nl
                 @ concat (map (\<lambda>note. note @ nl @ nl) (junior_notes s))) \<and>
         written (senior_fn fp) tr =
           (if senior_notes s = [] then []
            else ''# Senior Developer Review'' @ nl @ nl
                 @ concat (map (\<lambda>note. note @ nl @ nl) (senior_notes s))) \<and>
         written (manager_fn fp) tr =
           (if manager_notes s = [] then []
            else ''# Manager Notes'' @ nl @ nl
                 @ concat (map (\<lambda>note. note @ nl @ nl) (manager_notes s))) \<and>
         written (planner_fn fp) tr =
           (if planning_notes s = [] then []
            else ''# Planner Notes'' @ nl @ nl
                 @ concat (map (\<lambda>note. note @ nl @ nl) (planning_notes s))) \<and>
         (\<exists>s1. classify s0 xs = (s1, None) \<and>
               (\<exists>zs. junior_notes s = junior_notes s1 @ zs) \<and>
               (\<exists>zs. senior_notes s = senior_notes s1 @ zs) \<and>
               (\<exists>zs. manager_notes s = manager_notes s1 @ zs) \<and>
               (\<exists>zs. planning_notes s = planning_notes s1 @ zs))"
proof -
  obtain s1 where pre: "classify s0 xs = (s1, None)" and rest: "classify s1 ys = (s, None)"
    using assms(2) by (auto simp: classify_append split: prod.splits option.splits)
  have order: "\<exists>s1. classify s0 xs = (s1, None) \<and>
               (\<exists>zs. junior_notes s = junior_notes s1 @ zs) \<and>
               (\<exists>zs. senior_notes s = senior_notes s1 @ zs) \<and>
               (\<exists>zs. manager_notes s = manager_notes s1 @ zs) \<and>
               (\<exists>zs. planning_notes s = planning_notes s1 @ zs)"
    using pre rest classify_grows [of s1 ys] by simp
  show ?thesis
    using report_writer_opens [OF assms(1)] report_writer_written [OF assms(1)] order
    by (intro conjI) assumption+
qed

theorem report_files_witness:
  "OpenWrite ''reviews/b_c_file_py/junior_review.md'' \<in> set (fst (report_writer
      (world [] (run_of []) []) ''/a/b/c/file.py''
      (fst (classify empty_state
        ([tool_call ''junior_developer_agent'' ''c1'' ''{}'', tool_result ''c1'' ''first'']
         @ [tool_call ''junior_developer_agent'' ''c2'' ''{}'', tool_result ''c2'' ''second'']))))) \<and>
   OpenWrite ''reviews/b_c_file_py/planner_review.md'' \<notin> set (fst (report_writer
      (world [] (run_of []) []) ''/a/b/c/file.py''
      (fst (classify empty_state
        ([tool_call ''junior_developer_agent'' ''c1'' ''{}'', tool_result ''c1'' ''first'']
         @ [tool_call ''junior_developer_agent'' ''c2'' ''{}'', tool_result ''c2'' ''second'']))))) \<and>
   written ''reviews/b_c_file_py/junior_review.md'' (fst (report_writer
      (world [] (run_of []) []) ''/a/b/c/file.py''
      (fst (classify empty_state
        ([tool_call ''junior_developer_agent'' ''c1'' ''{}'', tool_result ''c1'' ''first'']
         @ [tool_call ''junior_developer_agent'' ''c2'' ''{}'', tool_result ''c2'' ''second''])))))
     = ''# Junior Developer Review'' @ nl @ nl @ ''first'' @ nl @ nl @ ''second'' @ nl @ nl"
proof -
  let ?xs = "[tool_call ''junior_developer_agent'' ''c1'' ''{}'', tool_result ''c1'' ''first'']"
  let ?ys = "[tool_call ''junior_developer_agent'' ''c2'' ''{}'', tool_result ''c2'' ''second'']"
  let ?s = "fst (classify empty_state (?xs @ ?ys))"
  let ?e = "world [] (run_of []) []"
  let ?tr = "fst (report_writer ?e ''/a/b/c/file.py'' ?s)"
  have buckets: "junior_notes ?s = [''first'', ''second''] \<and> senior_notes ?s = [] \<and>
      manager_notes ?s = [] \<and> planning_notes ?s = []"
    by (simp add: event_defs branch_defs lower_def lower_char_def)
  have c: "classify empty_state (?xs @ ?ys) = (?s, None)"
    by (simp add: event_defs branch_defs lower_def lower_char_def)
  have w: "report_writer ?e ''/a/b/c/file.py'' ?s = (?tr, None)"
    using buckets by (simp add: writer_defs world_def)
  have fns: "junior_fn ''/a/b/c/file.py'' = ''reviews/b_c_file_py/junior_review.md'' \<and>
      planner_fn ''/a/b/c/file.py'' = ''reviews/b_c_file_py/planner_review.md''"
    by (simp add: writer_defs)
  show ?thesis
    using report_files [OF w c] buckets fns by simp
qed

lemmas run_defs = main_def after_run_def init_state_def audit_def emit_final_def full_input_def
  session_id_def world_def run_of_def required_def warning_line_def

section \<open>Write failures\<close>

lemma block_written:
  "snd (write_junior e fp s) = None \<Longrightarrow>
     written (junior_fn fp) (fst (write_junior e fp s)) =
       bucket_text (''# Junior Developer Review'' @ nl @ nl) (junior_notes s)"
  "snd (write_senior e fp s) = None \<Longrightarrow>
     written (senior_fn fp) (fst (write_senior e fp s)) =
       bucket_text (''# Senior Developer Review'' @ nl @ nl) (senior_notes s)"
  "snd (write_manager e fp s) = None \<Longrightarrow>
     written (manager_fn fp) (fst (write_manager e fp s)) =
       bucket_text (''# Manager Notes'' @ nl @ nl) (manager_notes s)"
  by (simp_all add: write_junior_def write_senior_def write_manager_def written_write_bucket
      bucket_text_def)

lemma block_written_other:
  "written (junior_fn fp) (fst (write_senior e fp s)) = []"
  "written (junior_fn fp) (fst (write_manager e fp s)) = []"
  "written (junior_fn fp) (fst (write_planner e fp s)) = []"
  "written (senior_fn fp) (fst (write_junior e fp s)) = []"
  "written (senior_fn fp) (fst (write_manager e fp s)) = []"
  "written (senior_fn fp) (fst (write_planner e fp s)) = []"
  "written (manager_fn fp) (fst (write_junior e fp s)) = []"
  "written (manager_fn fp) (fst (write_senior e fp s)) = []"
  "written (manager_fn fp) (fst (write_planner e fp s)) = []"
  using fn_distinct [of fp]
  by (simp_all add: write_junior_def write_senior_def write_manager_def write_planner_def
      written_write_bucket_other)

lemma block_opens:
  "OpenWrite fn \<in> set (fst (write_junior e fp s)) \<longleftrightarrow> junior_fn fp = fn \<and> junior_notes s \<noteq> []"
  "OpenWrite fn \<in> set (fst (write_senior e fp s)) \<longleftrightarrow> senior_fn fp = fn \<and> senior_notes s \<noteq> []"
  "OpenWrite fn \<in> set (fst (write_manager e fp s)) \<longleftrightarrow> manager_fn fp = fn \<and> manager_notes s \<noteq> []"
  "OpenWrite fn \<in> set (fst (write_planner e fp s)) \<longleftrightarrow> planner_fn fp = fn \<and> planning_notes s \<noteq> []"
  by (simp_all add: write_junior_def write_senior_def write_manager_def write_planner_def
      open_write_bucket)

text \<open>
  Claim C2, as stated, fails. In a run whose junior and senior buckets are both filled,
  the senior file is opened when every open succeeds; when opening the junior file
  fails, the exception leaves \<^verbatim>\<open>main\<close> and the senior file is never opened.
\<close>

theorem later_buckets_not_attempted:
  "OpenWrite ''reviews/b_c_file_py/senior_review.md'' \<in> set (fst (main
      (world ''x = 1''
         (run_of [tool_call ''junior_developer_agent'' ''c1'' ''{}'', tool_result ''c1'' ''questions'',
                  tool_call ''senior_developer_agent'' ''c2'' ''{}'', tool_result ''c2'' ''answers''])
         [])
      ''Please review'' ''/a/b/c/file.py'')) \<and>
   snd (main
      (world ''x = 1''
         (run_of [tool_call ''junior_developer_agent'' ''c1'' ''{}'', tool_result ''c1'' ''questions'',
                  tool_call ''senior_developer_agent'' ''c2'' ''{}'', tool_result ''c2'' ''answers''])
         [''reviews/b_c_file_py/junior_review.md''])
      ''Please review'' ''/a/b/c/file.py'') =
     Some (Exn OSError ''reviews/b_c_file_py/junior_review.md'') \<and>
   OpenWrite ''reviews/b_c_file_py/senior_review.md'' \<notin> set (fst (main
      (world ''x = 1''
         (run_of [tool_call ''junior_developer_agent'' ''c1'' ''{}'', tool_result ''c1'' ''questions'',
                  tool_call ''senior_developer_agent'' ''c2'' ''{}'', tool_result ''c2'' ''answers''])
         [''reviews/b_c_file_py/junior_review.md''])
      ''Please review'' ''/a/b/c/file.py''))"
  by (simp add: run_defs event_defs branch_defs writer_defs nl_def check_mark_def lower_def
      lower_char_def)

text \<open>
  Claim C2, amended. The Report Writer makes the directory and then runs the blocks of
  the junior, senior, manager and planner buckets in this order, and nothing in it
  catches an exception. If making the directory raises, that is the only effect of the
  writer. If the block of a bucket raises (while opening, writing or closing its file,
  or printing its confirmation), the writer raises the same exception at once: its
  effects are those of the directory, of the blocks before, and of the failing block up to
  the exception; the file of every bucket before it holds its full text; and the file of
  no bucket behind it is opened.
\<close>

theorem bucket_failure_stops_report_writer:
  "(makedirs e (review_dir fp) = Some err \<longrightarrow>
      report_writer e fp s = ([MakeDirs (review_dir fp)], Some err)) \<and>
   (makedirs e (review_dir fp) = None \<and> snd (write_junior e fp s) = Some err \<longrightarrow>
      report_writer e fp s = (MakeDirs (review_dir fp) # fst (write_junior e fp s), Some err) \<and>
      OpenWrite (senior_fn fp) \<notin> set (fst (report_writer e fp s)) \<and>
      OpenWrite (manager_fn fp) \<notin> set (fst (report_writer e fp s)) \<and>
      OpenWrite (planner_fn fp) \<notin> set (fst (report_writer e fp s))) \<and>
   (makedirs e (review_dir fp) = None \<and> snd (write_junior e fp s) = None \<and>
    snd (write_senior e fp s) = Some err \<longrightarrow>
      report_writer e fp s =
        (MakeDirs (review_dir fp) # fst (write_junior e fp s) @ fst (write_senior e fp s),
         Some err) \<and>
      written (junior_fn fp) (fst (report_writer e fp s)) =
        bucket_text (''# Junior Developer Review'' @ nl @ nl) (junior_notes s) \<and>
      OpenWrite (manager_fn fp) \<notin> set (fst (report_writer e fp s)) \<and>
      OpenWrite (planner_fn fp) \<notin> set (fst (report_writer e fp s))) \<and>
   (makedirs e (review_dir fp) = None \<and> snd (write_junior e fp s) = None \<and>
    snd (write_senior e fp s) = None \<and> snd (write_manager e fp s) = Some err \<longrightarrow>
      report_writer e fp s =
        (MakeDirs (review_dir fp) # fst (write_junior e fp s) @ fst (write_senior e fp s)
           @ fst (write_manager e fp s),
         Some err) \<and>
      written (junior_fn fp) (fst (report_writer e fp s)) =
        bucket_text (''# Junior Developer Review'' @ nl @ nl) (junior_notes s) \<and>
      written (senior_fn fp) (fst (report_writer e fp s)) =
        bucket_text (''# Senior Developer Review'' @ nl @ nl) (senior_notes s) \<and>
      OpenWrite (planner_fn fp) \<notin> set (fst (report_writer e fp s))) \<and>
   (makedirs e (review_dir fp) = None \<and> snd (write_junior e fp s) = None \<and>
    snd (write_senior e fp s) = None \<and> snd (write_manager e fp s) = None \<and>
    snd (write_planner e fp s) = Some err \<longrightarrow>
      report_writer e fp s =
        (MakeDirs (review_dir fp) # fst (write_junior e fp s) @ fst (write_senior e fp s)
           @ fst (write_manager e fp s) @ fst (write_planner e fp s),
         Some err) \<and>
      written (junior_fn fp) (fst (report_writer e fp s)) =
        bucket_text (''# Junior Developer Review'' @ nl @ nl) (junior_notes s) \<and>
      written (senior_fn fp) (fst (report_writer e fp s)) =
        bucket_text (''# Senior Developer Review'' @ nl @ nl) (senior_notes s) \<and>
      written (manager_fn fp) (fst (report_writer e fp s)) =
        bucket_text (''# Manager Notes'' @ nl @ nl) (manager_notes s))"
proof (intro conjI impI)
  assume "makedirs e (review_dir fp) = Some err"
  then show "report_writer e fp s = ([MakeDirs (review_dir fp)], Some err)"
    by (simp add: report_writer_def and_then_def)
next
  assume a: "makedirs e (review_dir fp) = None \<and> snd (write_junior e fp s) = Some err"
  then show rw: "report_writer e fp s =
      (MakeDirs (review_dir fp) # fst (write_junior e fp s), Some err)"
    by (simp add: report_writer_def and_then_def)
  show "OpenWrite (senior_fn fp) \<notin> set (fst (report_writer e fp s))"
    and "OpenWrite (manager_fn fp) \<notin> set (fst (report_writer e fp s))"
    and "OpenWrite (planner_fn fp) \<notin> set (fst (report_writer e fp s))"
    using fn_distinct [of fp] by (simp_all add: rw block_opens)
next
  assume a: "makedirs e (review_dir fp) = None \<and> snd (write_junior e fp s) = None \<and>
    snd (write_senior e fp s) = Some err"
  then show rw: "report_writer e fp s =
      (MakeDirs (review_dir fp) # fst (write_junior e fp s) @ fst (write_senior e fp s),
       Some err)"
    by (simp add: report_writer_def and_then_def)
  show "written (junior_fn fp) (fst (report_writer e fp s)) =
      bucket_text (''# Junior Developer Review'' @ nl @ nl) (junior_notes s)"
    using a by (simp add: rw written_append block_written block_written_other)
  show "OpenWrite (manager_fn fp) \<notin> set (fst (report_writer e fp s))"
    and "OpenWrite (planner_fn fp) \<notin> set (fst (report_writer e fp s))"
    using fn_distinct [of fp] by (simp_all add: rw block_opens)
next
  assume a: "makedirs e (review_dir fp) = None \<and> snd (write_junior e fp s) = None \<and>
    snd (write_senior e fp s) = None \<and> snd (write_manager e fp s) = Some err"
  then show rw: "report_writer e fp s =
      (MakeDirs (review_dir fp) # fst (write_junior e fp s) @ fst (write_senior e fp s)
         @ fst (write_manager e fp s),
       Some err)"
    by (simp add: report_writer_def and_then_def)
  show "written (junior_fn fp) (fst (report_writer e fp s)) =
      bucket_text (''# Junior Developer Review'' @ nl @ nl) (junior_notes s)"
    using a by (simp add: rw written_append block_written block_written_other)
  show "written (senior_fn fp) (fst (report_writer e fp s)) =
      bucket_text (''# Senior Developer Review'' @ nl @ nl) (senior_notes s)"
    using a by (simp add: rw written_append block_written block_written_other)
  show "OpenWrite (planner_fn fp) \<notin> set (fst (report_writer e fp s))"
    using fn_distinct [of fp] by (simp add: rw block_opens)
next
  assume a: "makedirs e (review_dir fp) = None \<and> snd (write_junior e fp s) = None \<and>
    snd (write_senior e fp s) = None \<and> snd (write_manager e fp s) = None \<and>
    snd (write_planner e fp s) = Some err"
  then show rw: "report_writer e fp s =
      (MakeDirs (review_dir fp) # fst (write_junior e fp s) @ fst (write_senior e fp s)
         @ fst (write_manager e fp s) @ fst (write_planner e fp s),
       Some err)"
    by (simp add: report_writer_def and_then_def)
  show "written (junior_fn fp) (fst (report_writer e fp s)) =
      bucket_text (''# Junior Developer Review'' @ nl @ nl) (junior_notes s)"
    using a by (simp add: rw written_append block_written block_written_other)
  show "written (senior_fn fp) (fst (report_writer e fp s)) =
      bucket_text (''# Senior Developer Review'' @ nl @ nl) (senior_notes s)"
    using a by (simp add: rw written_append block_written block_written_other)
  show "written (manager_fn fp) (fst (report_writer e fp s)) =
      bucket_text (''# Manager Notes'' @ nl @ nl) (manager_notes s)"
    using a by (simp add: rw written_append block_written block_written_other)
qed

theorem bucket_failure_stops_report_writer_witness:
  "report_writer (failing_write_world ''reviews/b_c_file_py/senior_review.md'') ''/a/b/c/file.py''
     (empty_state\<lparr>junior_notes := [''j''], senior_notes := [''s''], manager_notes := [''m'']\<rparr>) =
   ([MakeDirs ''reviews/b_c_file_py'',
     OpenWrite ''reviews/b_c_file_py/junior_review.md'',
     Write ''reviews/b_c_file_py/junior_review.md'' (''# Junior Developer Review'' @ nl @ nl),
     Write ''reviews/b_c_file_py/junior_review.md'' ''j'',
     Write ''reviews/b_c_file_py/junior_review.md'' (nl @ nl),
     Close ''reviews/b_c_file_py/junior_review.md'',
     Print (nl @ check_mark @ '' Junior review saved to: junior_review.md''),
     OpenWrite ''reviews/b_c_file_py/senior_review.md'',
     Write ''reviews/b_c_file_py/senior_review.md'' (''# Senior Developer Review'' @ nl @ nl),
     Close ''reviews/b_c_file_py/senior_review.md''],
    Some (Exn OSError ''No space left on device'')) \<and>
   written ''reviews/b_c_file_py/junior_review.md''
     (fst (report_writer (failing_write_world ''reviews/b_c_file_py/senior_review.md'')
        ''/a/b/c/file.py''
        (empty_state\<lparr>junior_notes := [''j''], senior_notes := [''s''],
                       manager_notes := [''m'']\<rparr>))) =
     ''# Junior Developer Review'' @ nl @ nl @ ''j'' @ nl @ nl \<and>
   OpenWrite ''reviews/b_c_file_py/manager_review.md'' \<notin> set
     (fst (report_writer (failing_write_world ''reviews/b_c_file_py/senior_review.md'')
        ''/a/b/c/file.py''
        (empty_state\<lparr>junior_notes := [''j''], senior_notes := [''s''],
                       manager_notes := [''m'']\<rparr>)))"
proof -
  let ?e = "failing_write_world ''reviews/b_c_file_py/senior_review.md''"
  let ?s = "empty_state\<lparr>junior_notes := [''j''], senior_notes := [''s''],
              manager_notes := [''m'']\<rparr>"
  let ?err = "Exn OSError ''No space left on device''"
  have h: "makedirs ?e (review_dir ''/a/b/c/file.py'') = None \<and>
      snd (write_junior ?e ''/a/b/c/file.py'' ?s) = None \<and>
      snd (write_senior ?e ''/a/b/c/file.py'' ?s) = Some ?err"
    by (simp add: writer_defs failing_write_world_def world_def empty_state_def)
  have j: "fst (write_junior ?e ''/a/b/c/file.py'' ?s) =
      [OpenWrite ''reviews/b_c_file_py/junior_review.md'',
       Write ''reviews/b_c_file_py/junior_review.md'' (''# Junior Developer Review'' @ nl @ nl),
       Write ''reviews/b_c_file_py/junior_review.md'' ''j'',
       Write ''reviews/b_c_file_py/junior_review.md'' (nl @ nl),
       Close ''reviews/b_c_file_py/junior_review.md'',
       Print (nl @ check_mark @ '' Junior review saved to: junior_review.md'')]"
    by (simp add: writer_defs failing_write_world_def world_def empty_state_def)
  have s: "fst (write_senior ?e ''/a/b/c/file.py'' ?s) =
      [OpenWrite ''reviews/b_c_file_py/senior_review.md'',
       Write ''reviews/b_c_file_py/senior_review.md'' (''# Senior Developer Review'' @ nl @ nl),
       Close ''reviews/b_c_file_py/senior_review.md'']"
    by (simp add: writer_defs failing_write_world_def world_def empty_state_def)
  have f: "review_dir ''/a/b/c/file.py'' = ''reviews/b_c_file_py'' \<and>
      junior_fn ''/a/b/c/file.py'' = ''reviews/b_c_file_py/junior_review.md'' \<and>
      manager_fn ''/a/b/c/file.py'' = ''reviews/b_c_file_py/manager_review.md''"
    by (simp add: writer_defs)
  have n: "junior_notes ?s = [''j'']"
    by (simp add: empty_state_def)
  show ?thesis
    using bucket_failure_stops_report_writer [of ?e "''/a/b/c/file.py''" ?err ?s] h j s f n
    by (simp add: bucket_text_def)
qed

section \<open>The run as a whole\<close>

lemma report_writer_starts:
  "\<exists>w. fst (report_writer e fp s) = MakeDirs (review_dir fp) # w"
  by (simp add: report_writer_def and_then_def split: option.splits)

lemma required_not_empty: "required \<noteq> {}"
  by (simp add: required_def)

lemma classify_item_out:
  "\<not> list_ex is_writer_effect (out s) \<Longrightarrow>
   \<not> list_ex is_writer_effect (out (fst (classify_item s it)))"
  by (auto simp: branch_defs Let_def split: option.splits if_splits)

lemma classify_out:
  "\<not> list_ex is_writer_effect (out s) \<Longrightarrow>
   \<not> list_ex is_writer_effect (out (fst (classify s its)))"
proof (induction its arbitrary: s)
  case Nil
  then show ?case by simp
next
  case (Cons it its)
  obtain s' r where step: "classify_item s it = (s', r)"
    by (cases "classify_item s it")
  have "\<not> list_ex is_writer_effect (out s')"
    using classify_item_out [OF Cons.prems, of it] step by simp
  with Cons.IH [of s'] step show ?case by (cases r) simp_all
qed

text \<open>
  Claim C7. When the input file cannot be opened or read, the run prints the error and
  returns: the runtime is not invoked, no directory is made and no file is written.
\<close>

theorem unreadable_file_aborts:
  assumes "read_file e fp = Inl err" and "is_Exception err"
  shows "main e ui fp =
           ([OpenRead fp,
             Print (if exn_class err = FileNotFoundError
                    then ''Error: File not found at '' @ fp
                    else ''Error reading file: '' @ exn_str err)], None) \<and>
         \<not> list_ex is_run_agent (fst (main e ui fp)) \<and>
         \<not> list_ex is_writer_effect (fst (main e ui fp))"
  using assms by (simp add: main_def)

theorem unreadable_file_aborts_witness:
  "main missing_file_world ''Please review'' ''nofile.py'' =
     ([OpenRead ''nofile.py'', Print ''Error: File not found at nofile.py''], None)"
proof -
  have 1: "read_file missing_file_world ''nofile.py'' = Inl (Exn FileNotFoundError ''nofile.py'')"
    by (simp add: missing_file_world_def)
  have 2: "is_Exception (Exn FileNotFoundError ''nofile.py'')"
    by (simp add: is_Exception_def)
  show ?thesis
    using unreadable_file_aborts [OF 1 2, of "''Please review''"] by simp
qed

text \<open>
  Claim C3, as stated, fails. In a run that succeeds, the final answer is not printed
  after the Report Writer: line 178 prints it before line 186 makes the directory.
\<close>

theorem final_answer_printed_before_files:
  "snd (main (world ''x = 1'' (run_of [reasoning ''plan'']) []) ''Please review'' ''/a/b/c/file.py'')
     = None \<and>
   \<not> emitted_after_writer ''FINAL''
     (fst (main (world ''x = 1'' (run_of [reasoning ''plan'']) []) ''Please review''
        ''/a/b/c/file.py''))"
  by (simp add: run_defs event_defs branch_defs writer_defs emitted_after_writer_def nl_def
      check_mark_def)

text \<open>
  Claim C3, amended. In every run that succeeds, the trace is classified first, then the
  tools are audited, then the final answer is printed, and the Report Writer runs last.
  The effects of the run are, in this order: the read and the call of the runtime; what
  the classifier prints, with no effect on the file system among it; the two lines of the
  auditor and, when a required tool is missing, its two lines of warning; the banner and
  the final answer; and then the effects of the writer, the first of which, right behind
  the final answer, is the making of the directory.
\<close>

theorem final_answer_before_report_writer:
  assumes "read_file e fp = Inr content" and "main e ui fp = (tr, None)"
  shows "\<exists>result s w.
           run_agent e (full_input ui content) = Inr result \<and>
           classify (init_state result) (new_items result) = (s, None) \<and>
           report_writer e fp s = (MakeDirs (review_dir fp) # w, None) \<and>
           \<not> list_ex is_writer_effect (out s) \<and>
           tr = [OpenRead fp, RunAgent session_id (full_input ui content)]
                @ out s
                @ [Print (nl @ nl @ ''======== TOOLS USED: ========'' @ nl @ nl),
                   Print (repr_set e (used_tools s))]
                @ (if required \<subseteq> used_tools s then []
                   else [Print warning_line,
                         Print (''Expected: '' @ repr_set e required @ '', got: ''
                                @ repr_set e (used_tools s))])
                @ [Print (nl @ nl @ ''======== FINAL OUTPUT ========'' @ nl @ nl),
                   Print (final_output result),
                   MakeDirs (review_dir fp)]
                @ w"
proof -
  obtain result where run: "run_agent e (full_input ui content) = Inr result"
    using assms by (cases "run_agent e (full_input ui content)") (auto simp: main_def)
  obtain s r where cl: "classify (init_state result) (new_items result) = (s, r)"
    by (cases "classify (init_state result) (new_items result)")
  have m: "main e ui fp =
      and_then ([OpenRead fp, RunAgent session_id (full_input ui content)], None)
        (after_run e fp result)"
    using assms(1) run by (simp add: main_def)
  have ar: "snd (after_run e fp result) = None"
    and tr: "tr = [OpenRead fp, RunAgent session_id (full_input ui content)]
                  @ fst (after_run e fp result)"
    using assms(2) m by (simp_all add: and_then_ok)
  have r: "r = None"
    using ar cl by (cases r) (simp_all add: after_run_def)
  have rw: "snd (report_writer e fp s) = None"
    and ar2: "fst (after_run e fp result) =
        (out s @ audit e (used_tools s) @ emit_final result) @ fst (report_writer e fp s)"
    using ar cl r by (simp_all add: after_run_def snd_and_then fst_and_then)
  have "report_writer e fp s = (fst (report_writer e fp s), None)"
    using rw by (cases "report_writer e fp s") simp
  from report_writer_ok(1) [OF this]
  obtain w where w: "fst (report_writer e fp s) = MakeDirs (review_dir fp) # w"
    by blast
  have rw': "report_writer e fp s = (MakeDirs (review_dir fp) # w, None)"
    using rw w by (cases "report_writer e fp s") simp
  have "\<not> list_ex is_writer_effect (out (init_state result))"
    by (simp add: init_state_def)
  then have prints: "\<not> list_ex is_writer_effect (out s)"
    using classify_out [of "init_state result" "new_items result"] cl by simp
  have "tr = [OpenRead fp, RunAgent session_id (full_input ui content)]
                @ out s
                @ [Print (nl @ nl @ ''======== TOOLS USED: ========'' @ nl @ nl),
                   Print (repr_set e (used_tools s))]
                @ (if required \<subseteq> used_tools s then []
                   else [Print warning_line,
                         Print (''Expected: '' @ repr_set e required @ '', got: ''
                                @ repr_set e (used_tools s))])
                @ [Print (nl @ nl @ ''======== FINAL OUTPUT ========'' @ nl @ nl),
                   Print (final_output result),
                   MakeDirs (review_dir fp)]
                @ w"
    using tr ar2 w by (simp add: audit_def emit_final_def)
  with run cl r rw' prints show ?thesis by blast
qed

theorem final_answer_before_report_writer_witness:
  "\<exists>result s w.
     run_agent (world ''x = 1'' (run_of [reasoning ''plan'']) [])
       (full_input ''Please review'' ''x = 1'') = Inr result \<and>
     classify (init_state result) (new_items result) = (s, None) \<and>
     report_writer (world ''x = 1'' (run_of [reasoning ''plan'']) []) ''/a/b/c/file.py'' s =
       (MakeDirs (review_dir ''/a/b/c/file.py'') # w, None) \<and>
     \<not> list_ex is_writer_effect (out s) \<and>
     fst (main (world ''x = 1'' (run_of [reasoning ''plan'']) []) ''Please review''
            ''/a/b/c/file.py'') =
       [OpenRead ''/a/b/c/file.py'', RunAgent session_id (full_input ''Please review'' ''x = 1'')]
       @ out s
       @ [Print (nl @ nl @ ''======== TOOLS USED: ========'' @ nl @ nl),
          Print (repr_set (world ''x = 1'' (run_of [reasoning ''plan'']) []) (used_tools s))]
       @ (if required \<subseteq> used_tools s then []
          else [Print warning_line,
                Print (''Expected: ''
                       @ repr_set (world ''x = 1'' (run_of [reasoning ''plan'']) []) required
                       @ '', got: ''
                       @ repr_set (world ''x = 1'' (run_of [reasoning ''plan'']) [])
                           (used_tools s))])
       @ [Print (nl @ nl @ ''======== FINAL OUTPUT ========'' @ nl @ nl),
          Print (final_output result),
          MakeDirs (review_dir ''/a/b/c/file.py'')]
       @ w"
proof -
  let ?e = "world ''x = 1'' (run_of [reasoning ''plan'']) []"
  have 1: "read_file ?e ''/a/b/c/file.py'' = Inr ''x = 1''"
    by (simp add: world_def)
  have 2: "main ?e ''Please review'' ''/a/b/c/file.py'' =
      (fst (main ?e ''Please review'' ''/a/b/c/file.py''), None)"
    by (simp add: run_defs event_defs branch_defs writer_defs nl_def check_mark_def)
  show ?thesis
    by (rule final_answer_before_report_writer [OF 1 2])
qed

text \<open>
  Claim C9. When no event of the trace is a tool invocation, the set of used tools is
  empty, so the required set is not contained in it. When moreover the pass completes
  (every event has the fields its branch reads), the auditor prints the warning and the
  two sets, raises nothing, and the run goes on: the final answer is printed and the
  Report Writer runs, beginning with the directory.
\<close>

theorem no_tool_calls_audit_warns:
  assumes "list_all (\<lambda>it. \<not> is_tool_call it) (new_items result)"
  shows "used_tools (fst (classify (init_state result) (new_items result))) = {} \<and>
         (list_all well_formed (new_items result) \<longrightarrow>
           (\<exists>s w. classify (init_state result) (new_items result) = (s, None) \<and>
              used_tools s = {} \<and>
              fst (report_writer e fp s) = MakeDirs (review_dir fp) # w \<and>
              fst (after_run e fp result) =
                out s
                @ [Print (nl @ nl @ ''======== TOOLS USED: ========'' @ nl @ nl),
                   Print (repr_set e {}),
                   Print warning_line,
                   Print (''Expected: '' @ repr_set e required @ '', got: '' @ repr_set e {})]
                @ emit_final result
                @ MakeDirs (review_dir fp) # w \<and>
              snd (after_run e fp result) = snd (report_writer e fp s)))"
proof (intro conjI impI)
  show u: "used_tools (fst (classify (init_state result) (new_items result))) = {}"
    using classify_used_tools [OF assms, of "init_state result"] by (simp add: init_state_def)
  assume wf: "list_all well_formed (new_items result)"
  obtain s r where cl: "classify (init_state result) (new_items result) = (s, r)"
    by (cases "classify (init_state result) (new_items result)")
  have r: "r = None"
    using wf cl classify_ok_iff [of "init_state result" "new_items result"] by simp
  have us: "used_tools s = {}"
    using u cl by simp
  obtain w where w: "fst (report_writer e fp s) = MakeDirs (review_dir fp) # w"
    using report_writer_starts [of e fp s] by blast
  have "fst (after_run e fp result) =
          out s
          @ [Print (nl @ nl @ ''======== TOOLS USED: ========'' @ nl @ nl),
             Print (repr_set e {}),
             Print warning_line,
             Print (''Expected: '' @ repr_set e required @ '', got: '' @ repr_set e {})]
          @ emit_final result
          @ MakeDirs (review_dir fp) # w"
    using cl r us w by (simp add: after_run_def fst_and_then audit_def required_not_empty)
  moreover have "snd (after_run e fp result) = snd (report_writer e fp s)"
    using cl r by (simp add: after_run_def and_then_def)
  ultimately show "\<exists>s w. classify (init_state result) (new_items result) = (s, None) \<and>
              used_tools s = {} \<and>
              fst (report_writer e fp s) = MakeDirs (review_dir fp) # w \<and>
              fst (after_run e fp result) =
                out s
                @ [Print (nl @ nl @ ''======== TOOLS USED: ========'' @ nl @ nl),
                   Print (repr_set e {}),
                   Print warning_line,
                   Print (''Expected: '' @ repr_set e required @ '', got: '' @ repr_set e {})]
                @ emit_final result
                @ MakeDirs (review_dir fp) # w \<and>
              snd (after_run e fp result) = snd (report_writer e fp s)"
    using cl r us w by blast
qed

theorem no_tool_calls_audit_warns_witness:
  "used_tools (fst (classify (init_state (run_of [message [''All good.''], reasoning ''plan'']))
      [message [''All good.''], reasoning ''plan''])) = {} \<and>
   Print warning_line \<in> set (fst (after_run (world [] (run_of []) []) ''/a/b/c/file.py''
      (run_of [message [''All good.''], reasoning ''plan'']))) \<and>
   MakeDirs ''reviews/b_c_file_py'' \<in> set (fst (after_run (world [] (run_of []) [])
      ''/a/b/c/file.py'' (run_of [message [''All good.''], reasoning ''plan''])))"
proof -
  let ?its = "[message [''All good.''], reasoning ''plan'']"
  have items: "new_items (run_of ?its) = ?its"
    by (simp add: run_of_def)
  have 1: "list_all (\<lambda>it. \<not> is_tool_call it) (new_items (run_of ?its))"
    by (simp add: run_of_def is_tool_call_def event_defs)
  have 2: "list_all well_formed (new_items (run_of ?its))"
    by (simp add: run_of_def well_formed_def event_defs)
  have d: "review_dir ''/a/b/c/file.py'' = ''reviews/b_c_file_py''"
    by (simp add: writer_defs)
  show ?thesis
    using no_tool_calls_audit_warns [OF 1, of "world [] (run_of []) []" "''/a/b/c/file.py''"]
      2 items d
    by auto
qed

end
